theory Spec2Isabelle
  imports Complex_Main
begin

section \<open>The scalar type\<close>

text \<open>
  Modelled from the spec: the scalar type of the library is declared in \<open>defines.hpp\<close>, which
  is not among the sources at hand; it is \<open>double\<close>, the type of the literals \<open>1.0\<close> and
  \<open>-1.0\<close> of \<open>pca.hpp\<close>. A \<open>double\<close> is a binary64 number: a finite number (\<open>Finite 0\<close> is
  the positive zero), the negative zero, one of the two infinities, or not a number. Every
  operation computes the exact result and rounds it to the nearest binary64 number, ties
  to even, which is the default rounding of the arithmetic. A value \<open>Finite r\<close> is a
  \<open>double\<close> when \<open>r\<close> is a binary64 number; the operations return no other.
\<close>

datatype double = Finite real | NegZero | PInf | MInf | NaN

definition sign_bit :: "double \<Rightarrow> bool" where
  "sign_bit x = (case x of Finite r \<Rightarrow> r < 0 | NegZero \<Rightarrow> True | PInf \<Rightarrow> False
                 | MInf \<Rightarrow> True | NaN \<Rightarrow> False)"

definition is_zero :: "double \<Rightarrow> bool" where
  "is_zero x = (x = Finite 0 \<or> x = NegZero)"

definition is_inf :: "double \<Rightarrow> bool" where
  "is_inf x = (x = PInf \<or> x = MInf)"

definition is_finite :: "double \<Rightarrow> bool" where
  "is_finite x = (case x of Finite r \<Rightarrow> True | NegZero \<Rightarrow> True | _ \<Rightarrow> False)"

definition value_of :: "double \<Rightarrow> real" where
  "value_of x = (case x of Finite r \<Rightarrow> r | _ \<Rightarrow> 0)"

definition signed_zero :: "bool \<Rightarrow> double" where
  "signed_zero negative = (if negative then NegZero else Finite 0)"

definition signed_inf :: "bool \<Rightarrow> double" where
  "signed_inf negative = (if negative then MInf else PInf)"

text \<open>The nearest integer, ties to the even one.\<close>

definition rne :: "real \<Rightarrow> int" where
  "rne x = (let f = \<lfloor>x\<rfloor>; d = x - of_int f
            in if d < 1 / 2 then f else if 1 / 2 < d then f + 1
               else if even f then f else f + 1)"

text \<open>
  The binary exponent of a positive number, by bisection between \<open>lo\<close> and \<open>hi\<close>: the \<open>e\<close>
  with \<open>2\<^sup>e \<le> a < 2\<^sup>e\<^sup>+\<^sup>1\<close>, and \<open>lo\<close> for a number below \<open>2\<^sup>l\<^sup>o\<close>.
\<close>

function expo :: "real \<Rightarrow> int \<Rightarrow> int \<Rightarrow> int" where
  "expo a lo hi =
     (if hi \<le> lo + 1 then lo
      else if 2 powi ((lo + hi) div 2) \<le> a then expo a ((lo + hi) div 2) hi
      else expo a lo ((lo + hi) div 2))"
  by pat_completeness auto
termination
  by (relation "measure (\<lambda>(a, lo, hi). nat (hi - lo))") auto

declare expo.simps [simp del]

text \<open>
  Rounding of an exact result to binary64: 53 significant bits, exponents from \<open>-1022\<close>
  (below it the spacing stays \<open>2\<^sup>-\<^sup>1\<^sup>0\<^sup>7\<^sup>4\<close>) to \<open>1023\<close>; a result that rounds to \<open>2\<^sup>1\<^sup>0\<^sup>2\<^sup>4\<close> or
  more is an infinity, and one that rounds to zero keeps its sign.
\<close>

definition round_double :: "real \<Rightarrow> double" where
  "round_double q =
     (if q = 0 then Finite 0
      else if 2 ^ 1024 \<le> \<bar>q\<bar> then signed_inf (q < 0)
      else let u = 2 powi (expo \<bar>q\<bar> (- 1022) 1024 - 52);
               r = of_int (rne (q / u)) * u
           in if 2 ^ 1024 \<le> \<bar>r\<bar> then signed_inf (q < 0)
              else if r = 0 then signed_zero (q < 0)
              else Finite r)"

definition dadd :: "double \<Rightarrow> double \<Rightarrow> double" where
  "dadd x y =
     (if x = NaN \<or> y = NaN then NaN
      else if is_inf x \<and> is_inf y then (if x = y then x else NaN)
      else if is_inf x then x
      else if is_inf y then y
      else if is_zero x \<and> is_zero y then signed_zero (sign_bit x \<and> sign_bit y)
      else if value_of x + value_of y = 0 then Finite 0
      else round_double (value_of x + value_of y))"

definition dneg :: "double \<Rightarrow> double" where
  "dneg x = (case x of Finite r \<Rightarrow> (if r = 0 then NegZero else Finite (- r))
             | NegZero \<Rightarrow> Finite 0 | PInf \<Rightarrow> MInf | MInf \<Rightarrow> PInf | NaN \<Rightarrow> NaN)"

definition dmul :: "double \<Rightarrow> double \<Rightarrow> double" where
  "dmul x y =
     (if x = NaN \<or> y = NaN then NaN
      else if (is_inf x \<and> is_zero y) \<or> (is_zero x \<and> is_inf y) then NaN
      else if is_inf x \<or> is_inf y then signed_inf (sign_bit x \<noteq> sign_bit y)
      else if is_zero x \<or> is_zero y then signed_zero (sign_bit x \<noteq> sign_bit y)
      else round_double (value_of x * value_of y))"

definition ddiv :: "double \<Rightarrow> double \<Rightarrow> double" where
  "ddiv x y =
     (if x = NaN \<or> y = NaN then NaN
      else if (is_inf x \<and> is_inf y) \<or> (is_zero x \<and> is_zero y) then NaN
      else if is_inf x \<or> is_zero y then signed_inf (sign_bit x \<noteq> sign_bit y)
      else if is_zero x \<or> is_inf y then signed_zero (sign_bit x \<noteq> sign_bit y)
      else round_double (value_of x / value_of y))"

text \<open>The operators \<open>+\<close>, \<open>-\<close>, \<open>*\<close>, \<open>/\<close> and the literals \<open>0.0\<close> and \<open>1.0\<close> on \<open>double\<close>.\<close>

instantiation double :: "{zero, one, plus, minus, uminus, times, inverse}"
begin

definition zero_double_def: "(0 :: double) = Finite 0"

definition one_double_def: "(1 :: double) = Finite 1"

definition plus_double_def: "(x :: double) + y = dadd x y"

definition uminus_double_def: "- (x :: double) = dneg x"

definition minus_double_def: "(x :: double) - y = dadd x (dneg y)"

definition times_double_def: "(x :: double) * y = dmul x y"

definition divide_double_def: "divide (x :: double) y = ddiv x y"

definition inverse_double_def: "inverse (x :: double) = ddiv (Finite 1) x"

instance ..

end

text \<open>The operator \<open>==\<close> on \<open>double\<close>: the two zeros are equal, and not-a-number equals nothing.\<close>

definition double_eq :: "double \<Rightarrow> double \<Rightarrow> bool" where
  "double_eq x y = (x \<noteq> NaN \<and> y \<noteq> NaN \<and> (x = y \<or> (is_zero x \<and> is_zero y)))"

text \<open>The conversion of an index difference or a size to \<open>double\<close>.\<close>

definition double_of_nat :: "nat \<Rightarrow> double" where
  "double_of_nat n = round_double (real n)"

section \<open>Data model\<close>

text \<open>
  Modelled from the spec: the vector and matrix types are declared in \<open>defines.hpp\<close>, which
  is not among the sources at hand. A dense vector is the list of its coefficients. A dense
  matrix carries its two run-time dimensions and its coefficient access \<open>M(i,j)\<close>. An
  embedding result and a projection result are pairs of a matrix and a vector, as
  \<open>project\<close> builds and reads them.

  The primitives of \<open>pca.hpp\<close> are templates; they are written here once, over any scalar
  type \<open>'a\<close> that has the arithmetic operators. The program is their instance at \<open>double\<close>,
  with \<open>double_of_nat\<close> for the conversion \<open>scalar_of\<close> of a size to the scalar type. Their
  instance at \<open>real\<close>, with the conversion \<open>real\<close>, is the same computation in exact
  arithmetic.
\<close>

type_synonym ScalarType = double
type_synonym 'a DenseVector = "'a list"

record 'a DenseMatrix =
  rows :: nat
  cols :: nat
  coeff :: "nat \<Rightarrow> nat \<Rightarrow> 'a"

type_synonym 'a DenseSymmetricMatrix = "'a DenseMatrix"
type_synonym 'a EmbeddingResult = "'a DenseMatrix \<times> 'a DenseVector"
type_synonym 'a ProjectionResult = "'a DenseSymmetricMatrix \<times> 'a DenseVector"

text \<open>
  Modelled from the spec: the exception classes are declared in a header that is not among
  the sources at hand. They are the exceptions of the \<open>@throw\<close> list of \<open>embed\<close>, the
  two exceptions of the runtime that \<open>embed\<close> catches (\<open>bad_any_cast\<close>, \<open>bad_alloc\<close>), and
  the way a numeric primitive stops without an exception: a size assertion of the
  matrix library (an abort where assertions are compiled in, undefined behaviour where
  they are not). \<open>dimension_mismatch_error\<close> is the error the specification names for
  \<open>project\<close>; no statement of the source raises it.
\<close>

datatype tapkee_error =
    wrong_parameter_error
  | wrong_parameter_type_error
  | missed_parameter_error
  | unsupported_method_error
  | not_enough_memory_error
  | cancelled_exception
  | eigendecomposition_error
  | dimension_mismatch_error
  | bad_any_cast
  | bad_alloc
  | eigen_assertion_failed

section \<open>Operations of the matrix library used by the primitives\<close>

text \<open>
  The matrix library is not part of the repository. Each operation the sources call is
  given here with the meaning the library documents for it, coefficient by coefficient;
  where the library asserts that sizes agree, the operation returns the assertion failure.
  A sum of coefficients is taken in the order of the indices, starting from the first
  coefficient. The library is free to associate a sum otherwise; every sum that is
  evaluated in \<open>double\<close> below is one whose partial sums are exact, infinite or not a
  number, so that its value is the same in every order.
\<close>

definition DenseMatrix_Zero :: "nat \<Rightarrow> nat \<Rightarrow> ('a :: zero) DenseMatrix" where
  "DenseMatrix_Zero r c = \<lparr>rows = r, cols = c, coeff = (\<lambda>i j. 0)\<rparr>"

definition DenseVector_Zero :: "nat \<Rightarrow> ('a :: zero) DenseVector" where
  "DenseVector_Zero n = replicate n 0"

text \<open>
  \<open>DenseVector v(n)\<close> and \<open>DenseSymmetricMatrix m(n,n)\<close> allocate without initialising.
  The indeterminate contents are a parameter \<open>mem\<close> of every function that does so.
\<close>

definition DenseVector_uninit :: "(nat \<Rightarrow> 'a) \<Rightarrow> nat \<Rightarrow> 'a DenseVector" where
  "DenseVector_uninit mem n = map mem [0..<n]"

definition DenseMatrix_uninit :: "(nat \<Rightarrow> nat \<Rightarrow> 'a) \<Rightarrow> nat \<Rightarrow> nat \<Rightarrow> 'a DenseMatrix" where
  "DenseMatrix_uninit mem r c = \<lparr>rows = r, cols = c, coeff = mem\<rparr>"

text \<open>The sum of a sequence of coefficients, from the first one on; zero for none.\<close>

definition sum_coeffs :: "('a :: {zero, plus}) list \<Rightarrow> 'a" where
  "sum_coeffs xs = (case xs of [] \<Rightarrow> 0 | x # xs' \<Rightarrow> foldl (+) x xs')"

text \<open>\<open>A.transpose() * v\<close>: the product asserts that the sizes agree.\<close>

definition transpose_times ::
  "('a :: {zero, plus, times}) DenseMatrix \<Rightarrow> 'a DenseVector \<Rightarrow> tapkee_error + 'a DenseVector" where
  "transpose_times A v =
     (if rows A \<noteq> length v then Inl eigen_assertion_failed
      else Inr (map (\<lambda>c. sum_coeffs (map (\<lambda>r. coeff A r c * v ! r) [0..<rows A])) [0..<cols A]))"

text \<open>\<open>M.row(i) = v\<close>\<close>

definition set_row :: "'a DenseMatrix \<Rightarrow> nat \<Rightarrow> 'a DenseVector \<Rightarrow> 'a DenseMatrix" where
  "set_row M i v = M\<lparr>coeff := (\<lambda>r c. if r = i \<and> c < cols M then v ! c else coeff M r c)\<rparr>"

definition row :: "'a DenseMatrix \<Rightarrow> nat \<Rightarrow> 'a DenseVector" where
  "row M i = map (coeff M i) [0..<cols M]"

text \<open>\<open>M(i,j) = k\<close>\<close>

definition set_coeff :: "'a DenseMatrix \<Rightarrow> nat \<Rightarrow> nat \<Rightarrow> 'a \<Rightarrow> 'a DenseMatrix" where
  "set_coeff M i j k = M\<lparr>coeff := (\<lambda>r c. if r = i \<and> c = j then k else coeff M r c)\<rparr>"

text \<open>\<open>a += b\<close> on vectors: the sizes must agree.\<close>

definition vector_add ::
  "('a :: plus) DenseVector \<Rightarrow> 'a DenseVector \<Rightarrow> tapkee_error + 'a DenseVector" where
  "vector_add a b =
     (if length a \<noteq> length b then Inl eigen_assertion_failed
      else Inr (map (\<lambda>i. a ! i + b ! i) [0..<length a]))"

text \<open>
  \<open>M.selfadjointView<Eigen::Upper>().rankUpdate(u, alpha)\<close>: adds \<open>alpha * u * u\<^sup>T\<close> to the
  upper triangle of \<open>M\<close> (column \<open>c\<close>, rows \<open>0..c\<close>, each coefficient as
  \<open>M(r,c) + (alpha * u(c)) * u(r)\<close>) and leaves the strictly lower triangle as it is.
\<close>

definition rankUpdate_Upper ::
  "('a :: {plus, times}) DenseMatrix \<Rightarrow> 'a DenseVector \<Rightarrow> 'a \<Rightarrow> 'a DenseMatrix" where
  "rankUpdate_Upper M u alpha =
     M\<lparr>coeff := (\<lambda>r c. if r \<le> c \<and> c < length u
                          then coeff M r c + (alpha * u ! c) * u ! r
                          else coeff M r c)\<rparr>"


text \<open>
  \<open>M.colwise().mean()\<close>: one mean per column, the sum of the column divided by the number
  of rows; an empty column has no mean.
\<close>

definition colwise_mean ::
  "(nat \<Rightarrow> 'a) \<Rightarrow> ('a :: {zero, plus, inverse}) DenseMatrix \<Rightarrow> tapkee_error + 'a DenseVector" where
  "colwise_mean scalar_of M =
     (if cols M = 0 then Inr []
      else if rows M = 0 then Inl eigen_assertion_failed
      else Inr (map (\<lambda>c. sum_coeffs (map (\<lambda>r. coeff M r c) [0..<rows M]) / scalar_of (rows M))
                  [0..<cols M]))"

text \<open>
  \<open>M.mean()\<close>: the sum of all coefficients, column after column, divided by their number;
  the reduction asserts that the matrix is not empty.
\<close>

definition mean ::
  "(nat \<Rightarrow> 'a) \<Rightarrow> ('a :: {zero, plus, inverse}) DenseMatrix \<Rightarrow> tapkee_error + 'a" where
  "mean scalar_of M =
     (if rows M = 0 \<or> cols M = 0 then Inl eigen_assertion_failed
      else Inr (sum_coeffs (concat (map (\<lambda>c. map (\<lambda>r. coeff M r c) [0..<rows M]) [0..<cols M]))
                / scalar_of (rows M * cols M)))"

text \<open>\<open>M.array() += g\<close>\<close>

definition array_add :: "('a :: plus) DenseMatrix \<Rightarrow> 'a \<Rightarrow> 'a DenseMatrix" where
  "array_add M g = M\<lparr>coeff := (\<lambda>r c. coeff M r c + g)\<rparr>"

text \<open>\<open>M.colwise() -= v\<close>: subtracts the column vector \<open>v\<close> from every column.\<close>

definition colwise_sub ::
  "('a :: minus) DenseMatrix \<Rightarrow> 'a DenseVector \<Rightarrow> tapkee_error + 'a DenseMatrix" where
  "colwise_sub M v =
     (if length v \<noteq> rows M then Inl eigen_assertion_failed
      else Inr (M\<lparr>coeff := (\<lambda>r c. coeff M r c - v ! r)\<rparr>))"

text \<open>\<open>M.rowwise() -= v.transpose()\<close>: subtracts the row vector from every row.\<close>

definition rowwise_sub ::
  "('a :: minus) DenseMatrix \<Rightarrow> 'a DenseVector \<Rightarrow> tapkee_error + 'a DenseMatrix" where
  "rowwise_sub M v =
     (if length v \<noteq> cols M then Inl eigen_assertion_failed
      else Inr (M\<lparr>coeff := (\<lambda>r c. coeff M r c - v ! c)\<rparr>))"

text \<open>\<open>M.transposeInPlace()\<close>\<close>

definition transposeInPlace :: "'a DenseMatrix \<Rightarrow> 'a DenseMatrix" where
  "transposeInPlace M = \<lparr>rows = cols M, cols = rows M, coeff = (\<lambda>r c. coeff M c r)\<rparr>"

section \<open>pca.hpp\<close>

text \<open>
  The data sequence \<open>[begin, end)\<close> is the list of its items; \<open>iter - begin\<close> is the
  position in the list. The feature-vector callback has the signature
  \<open>void (const Data&, DenseVector&)\<close>: it receives the current contents of the vector and
  leaves the new ones. The \<open>timed_context\<close> of each primitive only measures time and is
  left out.
\<close>

type_synonym ('item, 'a) FeatureVectorCallback = "'item \<Rightarrow> 'a DenseVector \<Rightarrow> 'a DenseVector"
type_synonym ('item, 'a) KernelCallback = "'item \<Rightarrow> 'item \<Rightarrow> 'a"

text \<open>The vectors \<open>x\<^sub>1..x\<^sub>n\<close> that successive calls of the callback leave in \<open>current_vector\<close>.\<close>

fun feature_vectors ::
  "('item, 'a) FeatureVectorCallback \<Rightarrow> 'item list \<Rightarrow> 'a DenseVector \<Rightarrow> 'a DenseVector list" where
  "feature_vectors callback [] current_vector = []"
| "feature_vectors callback (x # xs) current_vector =
     callback x current_vector # feature_vectors callback xs (callback x current_vector)"

subsection \<open>project\<close>

fun project_loop ::
  "('a :: {zero, plus, times}) DenseMatrix \<Rightarrow> ('item, 'a) FeatureVectorCallback \<Rightarrow> 'item list \<Rightarrow> nat
     \<Rightarrow> 'a DenseVector \<Rightarrow> 'a DenseMatrix \<Rightarrow> tapkee_error + 'a DenseMatrix" where
  "project_loop projection_matrix callback [] i current_vector embedding = Inr embedding"
| "project_loop projection_matrix callback (x # xs) i current_vector embedding =
     (case transpose_times projection_matrix (callback x current_vector) of
        Inl e \<Rightarrow> Inl e
      | Inr v \<Rightarrow> project_loop projection_matrix callback xs (Suc i) (callback x current_vector)
                  (set_row embedding i v))"

definition project ::
  "(nat \<Rightarrow> 'a) \<Rightarrow> ('a :: {zero, plus, times}) ProjectionResult \<Rightarrow> 'item list
     \<Rightarrow> ('item, 'a) FeatureVectorCallback \<Rightarrow> nat \<Rightarrow> tapkee_error + 'a EmbeddingResult" where
  "project mem projection_result data callback dimension =
     (let current_vector = DenseVector_uninit mem dimension;
          projection_matrix = fst projection_result;
          embedding = DenseMatrix_Zero (length data) (cols projection_matrix)
      in case project_loop projection_matrix callback data 0 current_vector embedding of
           Inl e \<Rightarrow> Inl e
         | Inr embedding' \<Rightarrow> Inr (embedding', []))"

subsection \<open>compute_covariance_matrix\<close>

fun covariance_loop ::
  "('item, 'a) FeatureVectorCallback \<Rightarrow> 'item list \<Rightarrow> 'a DenseVector \<Rightarrow> 'a DenseVector
     \<Rightarrow> ('a :: {one, plus, times}) DenseMatrix \<Rightarrow> tapkee_error + ('a DenseVector \<times> 'a DenseMatrix)" where
  "covariance_loop callback [] current_vector sum_v covariance_matrix = Inr (sum_v, covariance_matrix)"
| "covariance_loop callback (x # xs) current_vector sum_v covariance_matrix =
     (case vector_add sum_v (callback x current_vector) of
        Inl e \<Rightarrow> Inl e
      | Inr sum_v' \<Rightarrow> covariance_loop callback xs (callback x current_vector) sum_v'
                     (rankUpdate_Upper covariance_matrix (callback x current_vector) 1))"

text \<open>
  \<open>-1.0/(end-begin)\<close>: the difference of the iterators is converted to the scalar type and
  divides \<open>-1.0\<close>; nothing tests it for zero.
\<close>

definition covariance_scale :: "(nat \<Rightarrow> 'a) \<Rightarrow> nat \<Rightarrow> ('a :: {one, uminus, inverse})" where
  "covariance_scale scalar_of n = - 1 / scalar_of n"

definition compute_covariance_matrix ::
  "(nat \<Rightarrow> 'a) \<Rightarrow> (nat \<Rightarrow> 'a) \<Rightarrow> 'item list \<Rightarrow> ('item, 'a) FeatureVectorCallback \<Rightarrow> nat
     \<Rightarrow> tapkee_error + ('a :: {zero, one, plus, uminus, times, inverse}) DenseSymmetricMatrix" where
  "compute_covariance_matrix scalar_of mem data callback dimension =
     (let covariance_matrix = DenseMatrix_Zero dimension dimension;
          sum_v = DenseVector_Zero dimension;
          current_vector = DenseVector_uninit mem dimension
      in case covariance_loop callback data current_vector sum_v covariance_matrix of
           Inl e \<Rightarrow> Inl e
         | Inr (sum_v', covariance_matrix') \<Rightarrow>
             Inr (rankUpdate_Upper covariance_matrix' sum_v' (covariance_scale scalar_of (length data))))"

subsection \<open>compute_centered_kernel_matrix\<close>

fun kernel_inner_loop ::
  "('item, 'a) KernelCallback \<Rightarrow> 'item \<Rightarrow> nat \<Rightarrow> 'item list \<Rightarrow> nat \<Rightarrow> 'a DenseMatrix
     \<Rightarrow> 'a DenseMatrix" where
  "kernel_inner_loop callback xi i [] j kernel_matrix = kernel_matrix"
| "kernel_inner_loop callback xi i (xj # xs) j kernel_matrix =
     kernel_inner_loop callback xi i xs (Suc j)
       (set_coeff (set_coeff kernel_matrix i j (callback xi xj)) j i (callback xi xj))"

fun kernel_outer_loop ::
  "('item, 'a) KernelCallback \<Rightarrow> 'item list \<Rightarrow> nat \<Rightarrow> 'a DenseMatrix \<Rightarrow> 'a DenseMatrix" where
  "kernel_outer_loop callback [] i kernel_matrix = kernel_matrix"
| "kernel_outer_loop callback (xi # xs) i kernel_matrix =
     kernel_outer_loop callback xs (Suc i)
       (kernel_inner_loop callback xi i (xi # xs) i kernel_matrix)"

definition compute_centered_kernel_matrix ::
  "(nat \<Rightarrow> 'a) \<Rightarrow> (nat \<Rightarrow> nat \<Rightarrow> 'a) \<Rightarrow> 'item list \<Rightarrow> ('item, 'a) KernelCallback
     \<Rightarrow> tapkee_error + ('a :: {zero, plus, minus, inverse}) DenseSymmetricMatrix" where
  "compute_centered_kernel_matrix scalar_of mem data callback =
     (let kernel_matrix = kernel_outer_loop callback data 0
                            (DenseMatrix_uninit mem (length data) (length data))
      in case colwise_mean scalar_of kernel_matrix of
           Inl e \<Rightarrow> Inl e
         | Inr col_means \<Rightarrow>
             (case mean scalar_of kernel_matrix of
                Inl e \<Rightarrow> Inl e
              | Inr grand_mean \<Rightarrow>
                  (case colwise_sub (array_add kernel_matrix grand_mean) col_means of
                     Inl e \<Rightarrow> Inl e
                   | Inr m \<Rightarrow> rowwise_sub m col_means)))"


section \<open>tapkee.hpp\<close>

text \<open>
  Modelled from the spec: the enumerations are declared in \<open>tapkee_defines.hpp\<close>, which is
  not among the sources at hand. \<open>TAPKEE_METHOD\<close>, the closed set of method variants, has
  the enumerators the \<open>switch\<close> of \<open>embed\<close> names. The parameter identifiers are those
  \<open>embed\<close> reads or writes; \<open>OTHER_PARAMETER\<close> stands for the method-specific ones that
  only the method implementations read. The other two enumerations have the enumerators
  \<open>embed\<close> names and one for the rest.
\<close>

datatype TAPKEE_METHOD =
    KERNEL_LOCALLY_LINEAR_EMBEDDING
  | KERNEL_LOCAL_TANGENT_SPACE_ALIGNMENT
  | DIFFUSION_MAP
  | MULTIDIMENSIONAL_SCALING
  | LANDMARK_MULTIDIMENSIONAL_SCALING
  | ISOMAP
  | LANDMARK_ISOMAP
  | NEIGHBORHOOD_PRESERVING_EMBEDDING
  | LINEAR_LOCAL_TANGENT_SPACE_ALIGNMENT
  | HESSIAN_LOCALLY_LINEAR_EMBEDDING
  | LAPLACIAN_EIGENMAPS
  | LOCALITY_PRESERVING_PROJECTIONS
  | PCA
  | KERNEL_PCA
  | RANDOM_PROJECTION
  | STOCHASTIC_PROXIMITY_EMBEDDING
  | PASS_THRU
  | FACTOR_ANALYSIS
  | T_DISTRIBUTED_STOCHASTIC_NEIGHBOR_EMBEDDING
  | UNKNOWN_METHOD

datatype TAPKEE_PARAMETERS =
    REDUCTION_METHOD
  | OUTPUT_FEATURE_VECTORS_ARE_COLUMNS
  | EIGENSHIFT
  | KLLE_TRACE_SHIFT
  | CHECK_CONNECTIVITY
  | EIGEN_EMBEDDING_METHOD
  | TARGET_DIMENSION
  | NEIGHBORS_METHOD
  | PROGRESS_FUNCTION
  | CANCEL_FUNCTION
  | OTHER_PARAMETER nat

datatype TAPKEE_EIGEN_EMBEDDING_METHOD =
    ARPACK
  | EIGEN_DENSE_SELFADJOINT_SOLVER
  | OTHER_EIGEN_EMBEDDING_METHOD nat

datatype TAPKEE_NEIGHBORS_METHOD =
    COVER_TREE
  | OTHER_NEIGHBORS_METHOD nat

text \<open>
  Modelled from the spec: the dynamically-typed value \<open>any\<close> of the configuration store is
  declared in a header that is not among the sources at hand. A value comes together with
  its type, and reading it at another type is an error at read time. The two function
  pointers are opaque to \<open>embed\<close>, which only hands them on; they are their addresses here.
  \<open>any_empty\<close> is the default-constructed \<open>any\<close>, \<open>any_other\<close> a value of any other type.
\<close>

datatype any =
    any_empty
  | any_bool bool
  | any_ScalarType double
  | any_IndexType int
  | any_TAPKEE_METHOD TAPKEE_METHOD
  | any_TAPKEE_EIGEN_EMBEDDING_METHOD TAPKEE_EIGEN_EMBEDDING_METHOD
  | any_TAPKEE_NEIGHBORS_METHOD TAPKEE_NEIGHBORS_METHOD
  | any_progress_function nat
  | any_cancel_function nat
  | any_other string

type_synonym ParametersMap = "TAPKEE_PARAMETERS \<rightharpoonup> any"

text \<open>\<open>any::cast<T>()\<close> throws \<open>bad_any_cast\<close> unless the stored value has type \<open>T\<close>.\<close>

fun cast_TAPKEE_METHOD :: "any \<Rightarrow> tapkee_error + TAPKEE_METHOD" where
  "cast_TAPKEE_METHOD (any_TAPKEE_METHOD m) = Inr m"
| "cast_TAPKEE_METHOD _ = Inl bad_any_cast"

fun cast_progress_function :: "any \<Rightarrow> tapkee_error + nat" where
  "cast_progress_function (any_progress_function f) = Inr f"
| "cast_progress_function _ = Inl bad_any_cast"

fun cast_cancel_function :: "any \<Rightarrow> tapkee_error + nat" where
  "cast_cancel_function (any_cancel_function f) = Inr f"
| "cast_cancel_function _ = Inl bad_any_cast"

fun cast_bool :: "any \<Rightarrow> tapkee_error + bool" where
  "cast_bool (any_bool b) = Inr b"
| "cast_bool _ = Inl bad_any_cast"

text \<open>\<open>parameters[KEY]\<close>: \<open>operator[]\<close> of the map gives a default-constructed value for an absent key.\<close>

definition parameters_at :: "ParametersMap \<Rightarrow> TAPKEE_PARAMETERS \<Rightarrow> any" where
  "parameters_at parameters KEY = (case parameters KEY of None \<Rightarrow> any_empty | Some v \<Rightarrow> v)"

text \<open>The macro \<open>PUT_DEFAULT(KEY,TYPE,VALUE)\<close>; \<open>VALUE\<close> comes already cast to \<open>TYPE\<close>.\<close>

definition PUT_DEFAULT :: "TAPKEE_PARAMETERS \<Rightarrow> any \<Rightarrow> ParametersMap \<Rightarrow> ParametersMap" where
  "PUT_DEFAULT KEY VALUE parameters =
     (if parameters KEY = None then parameters(KEY \<mapsto> VALUE) else parameters)"

text \<open>
  The block between \<open>//// defaults\<close> and \<open>//// end of defaults\<close>. The two preprocessor
  symbols \<open>TAPKEE_WITH_ARPACK\<close> and \<open>TAPKEE_USE_LGPL_COVERTREE\<close> are parameters of the build.
  The literals \<open>1e-9\<close> and \<open>1e-3\<close> are the binary64 numbers nearest to them.
\<close>

definition put_defaults :: "bool \<Rightarrow> bool \<Rightarrow> ParametersMap \<Rightarrow> ParametersMap" where
  "put_defaults TAPKEE_WITH_ARPACK TAPKEE_USE_LGPL_COVERTREE parameters =
     (let p1 = PUT_DEFAULT OUTPUT_FEATURE_VECTORS_ARE_COLUMNS (any_bool False) parameters;
          p2 = PUT_DEFAULT EIGENSHIFT (any_ScalarType (round_double (1 / 10 ^ 9))) p1;
          p3 = PUT_DEFAULT KLLE_TRACE_SHIFT (any_ScalarType (round_double (1 / 10 ^ 3))) p2;
          p4 = PUT_DEFAULT CHECK_CONNECTIVITY (any_bool True) p3;
          p5 = (if TAPKEE_WITH_ARPACK
                then PUT_DEFAULT EIGEN_EMBEDDING_METHOD (any_TAPKEE_EIGEN_EMBEDDING_METHOD ARPACK) p4
                else PUT_DEFAULT EIGEN_EMBEDDING_METHOD
                       (any_TAPKEE_EIGEN_EMBEDDING_METHOD EIGEN_DENSE_SELFADJOINT_SOLVER) p4);
          p6 = PUT_DEFAULT TARGET_DIMENSION (any_IndexType 2) p5
      in if TAPKEE_USE_LGPL_COVERTREE
         then PUT_DEFAULT NEIGHBORS_METHOD (any_TAPKEE_NEIGHBORS_METHOD COVER_TREE) p6
         else p6)"

text \<open>
  Modelled from the spec: \<open>tapkee_internal::Context\<close>, the execution context, is declared in
  a header that is not among the sources at hand. It holds the two optional hooks, \<open>None\<close>
  for \<open>NULL\<close>.
\<close>

record Context =
  progress_function :: "nat option"
  cancel_function :: "nat option"

text \<open>
  The method implementations \<open>tapkee_internal::X_implementation\<close> are not among the
  sources at hand: they are the parameter \<open>implementation\<close>, which receives what
  \<open>CALL_IMPLEMENTATION\<close> passes and returns the result or the exception thrown. The map
  is \<open>embed\<close>'s own copy, and an implementation is taken not to change it.
\<close>

type_synonym ('item, 'callbacks, 'proj) implementations =
  "TAPKEE_METHOD \<Rightarrow> 'item list \<Rightarrow> 'callbacks \<Rightarrow> ParametersMap \<Rightarrow> Context
     \<Rightarrow> tapkee_error + (double DenseMatrix \<times> 'proj)"

text \<open>The \<open>switch (method)\<close>.\<close>

fun switch_method ::
  "('item, 'callbacks, 'proj) implementations \<Rightarrow> TAPKEE_METHOD \<Rightarrow> 'item list \<Rightarrow> 'callbacks
     \<Rightarrow> ParametersMap \<Rightarrow> Context \<Rightarrow> tapkee_error + (double DenseMatrix \<times> 'proj)" where
  "switch_method impl KERNEL_LOCALLY_LINEAR_EMBEDDING d cb p ctx = impl KERNEL_LOCALLY_LINEAR_EMBEDDING d cb p ctx"
| "switch_method impl KERNEL_LOCAL_TANGENT_SPACE_ALIGNMENT d cb p ctx = impl KERNEL_LOCAL_TANGENT_SPACE_ALIGNMENT d cb p ctx"
| "switch_method impl DIFFUSION_MAP d cb p ctx = impl DIFFUSION_MAP d cb p ctx"
| "switch_method impl MULTIDIMENSIONAL_SCALING d cb p ctx = impl MULTIDIMENSIONAL_SCALING d cb p ctx"
| "switch_method impl LANDMARK_MULTIDIMENSIONAL_SCALING d cb p ctx = impl LANDMARK_MULTIDIMENSIONAL_SCALING d cb p ctx"
| "switch_method impl ISOMAP d cb p ctx = impl ISOMAP d cb p ctx"
| "switch_method impl LANDMARK_ISOMAP d cb p ctx = impl LANDMARK_ISOMAP d cb p ctx"
| "switch_method impl NEIGHBORHOOD_PRESERVING_EMBEDDING d cb p ctx = impl NEIGHBORHOOD_PRESERVING_EMBEDDING d cb p ctx"
| "switch_method impl LINEAR_LOCAL_TANGENT_SPACE_ALIGNMENT d cb p ctx = impl LINEAR_LOCAL_TANGENT_SPACE_ALIGNMENT d cb p ctx"
| "switch_method impl HESSIAN_LOCALLY_LINEAR_EMBEDDING d cb p ctx = impl HESSIAN_LOCALLY_LINEAR_EMBEDDING d cb p ctx"
| "switch_method impl LAPLACIAN_EIGENMAPS d cb p ctx = impl LAPLACIAN_EIGENMAPS d cb p ctx"
| "switch_method impl LOCALITY_PRESERVING_PROJECTIONS d cb p ctx = impl LOCALITY_PRESERVING_PROJECTIONS d cb p ctx"
| "switch_method impl PCA d cb p ctx = impl PCA d cb p ctx"
| "switch_method impl KERNEL_PCA d cb p ctx = impl KERNEL_PCA d cb p ctx"
| "switch_method impl RANDOM_PROJECTION d cb p ctx = impl RANDOM_PROJECTION d cb p ctx"
| "switch_method impl STOCHASTIC_PROXIMITY_EMBEDDING d cb p ctx = impl STOCHASTIC_PROXIMITY_EMBEDDING d cb p ctx"
| "switch_method impl PASS_THRU d cb p ctx = impl PASS_THRU d cb p ctx"
| "switch_method impl FACTOR_ANALYSIS d cb p ctx = impl FACTOR_ANALYSIS d cb p ctx"
| "switch_method impl T_DISTRIBUTED_STOCHASTIC_NEIGHBOR_EMBEDDING d cb p ctx = impl T_DISTRIBUTED_STOCHASTIC_NEIGHBOR_EMBEDDING d cb p ctx"
| "switch_method impl UNKNOWN_METHOD d cb p ctx = Inl wrong_parameter_error"

text \<open>\<open>catch (const std::bad_alloc&)\<close> around the \<open>switch\<close>; every other exception passes.\<close>

fun catch_bad_alloc :: "tapkee_error + 'a \<Rightarrow> tapkee_error + 'a" where
  "catch_bad_alloc (Inl e) = (if e = bad_alloc then Inl not_enough_memory_error else Inl e)"
| "catch_bad_alloc (Inr r) = Inr r"

text \<open>
  \<open>embed\<close>. The call \<open>Eigen::initParallel()\<close> and the message to the logger have no part in
  the result and are left out. A cast that fails ends \<open>embed\<close> with \<open>bad_any_cast\<close> unless
  a handler around it translates it.
\<close>

definition embed ::
  "bool \<Rightarrow> bool \<Rightarrow> ('item, 'callbacks, 'proj) implementations \<Rightarrow> 'item list \<Rightarrow> 'callbacks
     \<Rightarrow> ParametersMap \<Rightarrow> tapkee_error + (double DenseMatrix \<times> 'proj)" where
  "embed TAPKEE_WITH_ARPACK TAPKEE_USE_LGPL_COVERTREE implementation data callbacks parameters =
     (if parameters REDUCTION_METHOD = None then Inl missed_parameter_error
      else case cast_TAPKEE_METHOD (parameters_at parameters REDUCTION_METHOD) of
        Inl e \<Rightarrow> Inl wrong_parameter_type_error
      | Inr method \<Rightarrow>
         (let parameters' = put_defaults TAPKEE_WITH_ARPACK TAPKEE_USE_LGPL_COVERTREE parameters
          in case (if parameters' PROGRESS_FUNCTION \<noteq> None
                   then map_sum id Some (cast_progress_function (parameters_at parameters' PROGRESS_FUNCTION))
                   else Inr None) of
               Inl e \<Rightarrow> Inl e
             | Inr progress \<Rightarrow>
                (case (if parameters' CANCEL_FUNCTION \<noteq> None
                       then map_sum id Some (cast_cancel_function (parameters_at parameters' CANCEL_FUNCTION))
                       else Inr None) of
                   Inl e \<Rightarrow> Inl e
                 | Inr cancel \<Rightarrow>
                    (let context = \<lparr>progress_function = progress, cancel_function = cancel\<rparr>
                     in case catch_bad_alloc
                               (switch_method implementation method data callbacks parameters' context) of
                          Inl e \<Rightarrow> Inl e
                        | Inr return_result \<Rightarrow>
                           (case cast_bool (parameters_at parameters' OUTPUT_FEATURE_VECTORS_ARE_COLUMNS) of
                              Inl e \<Rightarrow> Inl e
                            | Inr b \<Rightarrow>
                               Inr (if b then (transposeInPlace (fst return_result), snd return_result)
                                    else return_result))))))"

section \<open>Facts about the matrix operations and the loops\<close>

lemma set_row_simps [simp]:
  "rows (set_row M i v) = rows M" "cols (set_row M i v) = cols M"
  "coeff (set_row M i v) r c = (if r = i \<and> c < cols M then v ! c else coeff M r c)"
  by (simp_all add: set_row_def)

lemma set_coeff_simps [simp]:
  "rows (set_coeff M i j k) = rows M" "cols (set_coeff M i j k) = cols M"
  "coeff (set_coeff M i j k) r c = (if r = i \<and> c = j then k else coeff M r c)"
  by (simp_all add: set_coeff_def)

lemma rankUpdate_Upper_simps [simp]:
  "rows (rankUpdate_Upper M u a) = rows M" "cols (rankUpdate_Upper M u a) = cols M"
  "coeff (rankUpdate_Upper M u a) r c =
     (if r \<le> c \<and> c < length u then coeff M r c + (a * u ! c) * u ! r else coeff M r c)"
  by (simp_all add: rankUpdate_Upper_def)

lemma length_feature_vectors [simp]:
  "length (feature_vectors callback xs cur) = length xs"
  by (induction xs arbitrary: cur) simp_all

subsection \<open>The loop of project\<close>

lemma project_loop_ok:
  assumes "\<forall>v \<in> set (feature_vectors callback xs cur). length v = rows P"
    and "cols emb = cols P"
  shows "\<exists>E. project_loop P callback xs i cur emb = Inr E \<and> rows E = rows emb \<and> cols E = cols emb \<and>
     (\<forall>r c. coeff E r c =
        (if i \<le> r \<and> r < i + length xs \<and> c < cols P
         then sum_coeffs (map (\<lambda>k. coeff P k c * (feature_vectors callback xs cur ! (r - i)) ! k)
                            [0..<rows P])
         else coeff emb r c))"
  using assms
proof (induction xs arbitrary: i cur emb)
  case Nil
  then show ?case by auto
next
  case (Cons x xs)
  let ?cur = "callback x cur"
  let ?v = "map (\<lambda>c. sum_coeffs (map (\<lambda>r. coeff P r c * ?cur ! r) [0..<rows P])) [0..<cols P]"
  have len: "length ?cur = rows P" using Cons.prems(1) by simp
  have tt: "transpose_times P ?cur = Inr ?v" by (simp add: transpose_times_def len)
  have rest: "\<forall>v \<in> set (feature_vectors callback xs ?cur). length v = rows P"
    using Cons.prems(1) by simp
  have c: "cols (set_row emb i ?v) = cols P" using Cons.prems(2) by simp
  from Cons.IH [OF rest c, of "Suc i"] obtain E where
    E: "project_loop P callback xs (Suc i) ?cur (set_row emb i ?v) = Inr E"
      "rows E = rows emb" "cols E = cols emb"
      "\<forall>r c. coeff E r c =
        (if Suc i \<le> r \<and> r < Suc i + length xs \<and> c < cols P
         then sum_coeffs (map (\<lambda>k. coeff P k c * (feature_vectors callback xs ?cur ! (r - Suc i)) ! k)
                            [0..<rows P])
         else coeff (set_row emb i ?v) r c)"
    by auto
  have "project_loop P callback (x # xs) i cur emb = Inr E"
    using tt E(1) by simp
  moreover have "\<forall>r c. coeff E r c =
        (if i \<le> r \<and> r < i + length (x # xs) \<and> c < cols P
         then sum_coeffs (map (\<lambda>k. coeff P k c * (feature_vectors callback (x # xs) cur ! (r - i)) ! k)
                            [0..<rows P])
         else coeff emb r c)"
  proof (intro allI)
    fix r c
    show "coeff E r c =
        (if i \<le> r \<and> r < i + length (x # xs) \<and> c < cols P
         then sum_coeffs (map (\<lambda>k. coeff P k c * (feature_vectors callback (x # xs) cur ! (r - i)) ! k)
                            [0..<rows P])
         else coeff emb r c)"
    proof (cases "r = i")
      case True
      then show ?thesis using E(4) Cons.prems(2) by simp
    next
      case False
      then show ?thesis using E(4) Cons.prems(2) by (auto simp: Suc_diff_le nth_Cons')
    qed
  qed
  ultimately show ?case using E(2,3) by blast
qed

lemma project_loop_mismatch:
  assumes "\<exists>v \<in> set (feature_vectors callback xs cur). length v \<noteq> rows P"
  shows "project_loop P callback xs i cur emb = Inl eigen_assertion_failed"
  using assms
proof (induction xs arbitrary: i cur emb)
  case Nil
  then show ?case by simp
next
  case (Cons x xs)
  show ?case
  proof (cases "length (callback x cur) = rows P")
    case True
    then have "\<exists>v \<in> set (feature_vectors callback xs (callback x cur)). length v \<noteq> rows P"
      using Cons.prems by auto
    from Cons.IH [OF this] show ?thesis
      by (simp add: transpose_times_def True)
  next
    case False
    then show ?thesis by (simp add: transpose_times_def)
  qed
qed

subsection \<open>The loop of compute_covariance_matrix\<close>


lemma covariance_loop_returns:
  assumes "\<forall>v \<in> set (feature_vectors callback xs cur). length v = d"
    and "length s = d"
  shows "\<exists>s' M'. covariance_loop callback xs cur s M = Inr (s', M') \<and> length s' = d"
  using assms
proof (induction xs arbitrary: cur s M)
  case Nil
  then show ?case by simp
next
  case (Cons x xs)
  let ?cur = "callback x cur"
  let ?s = "map (\<lambda>i. s ! i + ?cur ! i) [0..<length s]"
  have len: "length ?cur = d" using Cons.prems(1) by simp
  have va: "vector_add s ?cur = Inr ?s"
    by (simp add: vector_add_def len Cons.prems(2))
  have rest: "\<forall>v \<in> set (feature_vectors callback xs ?cur). length v = d"
    using Cons.prems(1) by simp
  have ls: "length ?s = d" using Cons.prems(2) by simp
  from Cons.IH [OF rest ls, of "rankUpdate_Upper M ?cur 1"] show ?case
    using va by simp
qed





subsection \<open>The loops of compute_centered_kernel_matrix\<close>

lemma kernel_inner_loop_dims [simp]:
  "rows (kernel_inner_loop cb xi i ys j K) = rows K"
  "cols (kernel_inner_loop cb xi i ys j K) = cols K"
  by (induction ys arbitrary: j K) simp_all

lemma kernel_inner_loop_coeff:
  "coeff (kernel_inner_loop cb xi i ys j K) r c =
     (if r = i \<and> j \<le> c \<and> c < j + length ys then cb xi (ys ! (c - j))
      else if c = i \<and> j \<le> r \<and> r < j + length ys then cb xi (ys ! (r - j))
      else coeff K r c)"
proof (induction ys arbitrary: j K)
  case Nil
  then show ?case by auto
next
  case (Cons y ys)
  have "coeff (kernel_inner_loop cb xi i (y # ys) j K) r c =
     (if r = i \<and> Suc j \<le> c \<and> c < Suc j + length ys then cb xi (ys ! (c - Suc j))
      else if c = i \<and> Suc j \<le> r \<and> r < Suc j + length ys then cb xi (ys ! (r - Suc j))
      else if r = j \<and> c = i then cb xi y
      else if r = i \<and> c = j then cb xi y
      else coeff K r c)"
    by (simp only: kernel_inner_loop.simps Cons.IH set_coeff_simps)
  then show ?case
    by (cases "r = i"; cases "c = i"; cases "c = j"; cases "r = j";
        cases "Suc j \<le> c"; cases "Suc j \<le> r")
       (simp_all add: nth_Cons' Suc_le_eq)
qed

lemma kernel_outer_loop_dims [simp]:
  "rows (kernel_outer_loop cb xs i K) = rows K"
  "cols (kernel_outer_loop cb xs i K) = cols K"
  by (induction xs arbitrary: i K) simp_all

lemma kernel_outer_loop_coeff:
  "coeff (kernel_outer_loop cb xs i K) r c =
     (if i \<le> r \<and> r \<le> c \<and> c < i + length xs then cb (xs ! (r - i)) (xs ! (c - i))
      else if i \<le> c \<and> c \<le> r \<and> r < i + length xs then cb (xs ! (c - i)) (xs ! (r - i))
      else coeff K r c)"
proof (induction xs arbitrary: i K)
  case Nil
  then show ?case by auto
next
  case (Cons x xs)
  have "coeff (kernel_outer_loop cb (x # xs) i K) r c =
     (if Suc i \<le> r \<and> r \<le> c \<and> c < Suc i + length xs
        then cb (xs ! (r - Suc i)) (xs ! (c - Suc i))
      else if Suc i \<le> c \<and> c \<le> r \<and> r < Suc i + length xs
        then cb (xs ! (c - Suc i)) (xs ! (r - Suc i))
      else if r = i \<and> i \<le> c \<and> c < i + length (x # xs) then cb x ((x # xs) ! (c - i))
      else if c = i \<and> i \<le> r \<and> r < i + length (x # xs) then cb x ((x # xs) ! (r - i))
      else coeff K r c)"
    by (simp only: kernel_outer_loop.simps Cons.IH kernel_inner_loop_coeff)
  then show ?case
    by (cases "r = i"; cases "c = i"; cases "Suc i \<le> c"; cases "Suc i \<le> r"; cases "r \<le> c")
       (simp_all add: nth_Cons' Suc_le_eq)
qed

lemma kernel_outer_loop_sym:
  assumes "r < length xs" "c < length xs"
  shows "coeff (kernel_outer_loop cb xs 0 K) r c = coeff (kernel_outer_loop cb xs 0 K) c r"
  using assms by (cases "r \<le> c"; cases "c \<le> r") (simp_all add: kernel_outer_loop_coeff)

text \<open>
  What compute_centered_kernel_matrix returns on a non-empty sequence, in any arithmetic,
  with \<open>K\<close> the matrix the two loops have filled:
  \<open>M(r,c) = ((K(r,c) + grand_mean) - col_means(r)) - col_means(c)\<close>.
\<close>

lemma compute_centered_kernel_matrix_result:
  assumes ne: "data \<noteq> []"
  shows "\<exists>M. compute_centered_kernel_matrix scalar_of mem data cb = Inr M
           \<and> rows M = length data \<and> cols M = length data
           \<and> (\<forall>r<length data. \<forall>c<length data. coeff M r c =
                 coeff (kernel_outer_loop cb data 0 (DenseMatrix_uninit mem (length data) (length data))) r c
                 + sum_coeffs (concat (map (\<lambda>c. map (\<lambda>r.
                      coeff (kernel_outer_loop cb data 0 (DenseMatrix_uninit mem (length data) (length data))) r c)
                      [0..<length data]) [0..<length data]))
                   / scalar_of (length data * length data)
                 - sum_coeffs (map (\<lambda>r'.
                      coeff (kernel_outer_loop cb data 0 (DenseMatrix_uninit mem (length data) (length data))) r' r)
                      [0..<length data])
                   / scalar_of (length data)
                 - sum_coeffs (map (\<lambda>r'.
                      coeff (kernel_outer_loop cb data 0 (DenseMatrix_uninit mem (length data) (length data))) r' c)
                      [0..<length data])
                   / scalar_of (length data))"
proof -
  let ?n = "length data"
  let ?K = "kernel_outer_loop cb data 0 (DenseMatrix_uninit mem ?n ?n)"
  let ?cm = "map (\<lambda>c. sum_coeffs (map (\<lambda>r. coeff ?K r c) [0..<?n]) / scalar_of ?n) [0..<?n]"
  let ?g = "sum_coeffs (concat (map (\<lambda>c. map (\<lambda>r. coeff ?K r c) [0..<?n]) [0..<?n]))
              / scalar_of (?n * ?n)"
  let ?A = "array_add ?K ?g"
  let ?B = "?A\<lparr>coeff := (\<lambda>r c. coeff ?A r c - ?cm ! r)\<rparr>"
  let ?M = "?B\<lparr>coeff := (\<lambda>r c. coeff ?B r c - ?cm ! c)\<rparr>"
  have n: "?n \<noteq> 0" using ne by simp
  have 1: "colwise_mean scalar_of ?K = Inr ?cm"
    using n by (simp add: colwise_mean_def DenseMatrix_uninit_def)
  have 2: "mean scalar_of ?K = Inr ?g" using n by (simp add: mean_def DenseMatrix_uninit_def)
  have 3: "colwise_sub ?A ?cm = Inr ?B"
    by (simp add: colwise_sub_def array_add_def DenseMatrix_uninit_def)
  have 4: "rowwise_sub ?B ?cm = Inr ?M"
    by (simp add: rowwise_sub_def array_add_def DenseMatrix_uninit_def)
  have res: "compute_centered_kernel_matrix scalar_of mem data cb = Inr ?M"
    unfolding compute_centered_kernel_matrix_def Let_def 1 2 sum.case 3 4 ..
  have dM: "rows ?M = ?n" "cols ?M = ?n" by (simp_all add: array_add_def DenseMatrix_uninit_def)
  have co: "\<forall>r<?n. \<forall>c<?n. coeff ?M r c =
      coeff ?K r c + ?g - sum_coeffs (map (\<lambda>r'. coeff ?K r' r) [0..<?n]) / scalar_of ?n
        - sum_coeffs (map (\<lambda>r'. coeff ?K r' c) [0..<?n]) / scalar_of ?n"
    by (simp add: array_add_def)
  show ?thesis using res dM co by blast
qed

subsection \<open>Exact arithmetic: the instance at real\<close>

lemma foldl_plus_real: "foldl (+) (a :: real) xs = a + sum_list xs"
  by (induction xs arbitrary: a) (simp_all add: algebra_simps)

lemma sum_coeffs_real: "sum_coeffs (xs :: real list) = sum_list xs"
  by (cases xs) (simp_all add: sum_coeffs_def foldl_plus_real)

lemma sum_coeffs_upt_real: "sum_coeffs (map f [0..<n]) = (\<Sum>i<n. f i :: real)"
  by (simp add: sum_coeffs_real interv_sum_list_conv_sum_set_nat atLeast0LessThan)

lemma sum_list_concat_real: "sum_list (concat xss) = (\<Sum>xs\<leftarrow>xss. sum_list xs :: real)"
  by (induction xss) simp_all

lemma sum_coeffs_concat_real:
  "sum_coeffs (concat (map (\<lambda>c. map (\<lambda>r. f r c) [0..<m]) [0..<n])) = (\<Sum>c<n. \<Sum>r<m. f r c :: real)"
  by (simp add: sum_coeffs_real sum_list_concat_real comp_def interv_sum_list_conv_sum_set_nat
      atLeast0LessThan)

text \<open>The arithmetic of the double centering, on a matrix that is symmetric.\<close>

lemma double_centering_row_sum:
  fixes K :: "nat \<Rightarrow> nat \<Rightarrow> real"
  assumes n: "0 < n" and sym: "\<forall>r<n. \<forall>c<n. K r c = K c r" and r: "r < n"
  shows "(\<Sum>c<n. K r c + (\<Sum>c<n. \<Sum>r<n. K r c) / real (n * n)
                 - (\<Sum>r'<n. K r' r) / real n - (\<Sum>r'<n. K r' c) / real n) = 0"
proof -
  let ?T = "\<Sum>c<n. \<Sum>r<n. K r c"
  have a: "(\<Sum>c<n. K r c) = (\<Sum>r'<n. K r' r)"
    using sym r by (intro sum.cong) auto
  have b: "(\<Sum>c<n. (\<Sum>r'<n. K r' c) / real n) = ?T / real n"
    by (simp add: sum_divide_distrib)
  have c: "real n * (?T / real (n * n)) = ?T / real n"
    using n by simp
  have d: "real n * ((\<Sum>r'<n. K r' r) / real n) = (\<Sum>r'<n. K r' r)"
    using n by simp
  have "(\<Sum>c<n. K r c + ?T / real (n * n) - (\<Sum>r'<n. K r' r) / real n - (\<Sum>r'<n. K r' c) / real n)
      = (\<Sum>c<n. K r c) + real n * (?T / real (n * n)) - real n * ((\<Sum>r'<n. K r' r) / real n)
        - (\<Sum>c<n. (\<Sum>r'<n. K r' c) / real n)"
    by (simp add: sum.distrib sum_subtractf)
  also have "\<dots> = 0"
    unfolding a b c d by simp
  finally show ?thesis .
qed

lemma compute_centered_kernel_matrix_sym:
  fixes cb :: "'item \<Rightarrow> 'item \<Rightarrow> real"
  assumes ne: "data \<noteq> []"
  shows "\<exists>M. compute_centered_kernel_matrix real mem data cb = Inr M
           \<and> rows M = length data \<and> cols M = length data
           \<and> (\<forall>r<length data. \<forall>c<length data. coeff M r c = coeff M c r)
           \<and> (\<forall>r<length data. (\<Sum>c<length data. coeff M r c) = 0)"
proof -
  let ?n = "length data"
  let ?K = "coeff (kernel_outer_loop cb data 0 (DenseMatrix_uninit mem ?n ?n))"
  from compute_centered_kernel_matrix_result [OF ne, of real mem cb] obtain M where
    M: "compute_centered_kernel_matrix real mem data cb = Inr M" "rows M = ?n" "cols M = ?n"
       "\<forall>r<?n. \<forall>c<?n. coeff M r c =
          ?K r c + (\<Sum>c<?n. \<Sum>r<?n. ?K r c) / real (?n * ?n)
          - (\<Sum>r'<?n. ?K r' r) / real ?n - (\<Sum>r'<?n. ?K r' c) / real ?n"
    unfolding sum_coeffs_upt_real sum_coeffs_concat_real by blast
  have n: "0 < ?n" using ne by simp
  have symK: "\<forall>r<?n. \<forall>c<?n. ?K r c = ?K c r"
    using kernel_outer_loop_sym by blast
  have symM: "\<forall>r<?n. \<forall>c<?n. coeff M r c = coeff M c r"
    using M(4) symK by simp
  have rowsum: "\<forall>r<?n. (\<Sum>c<?n. coeff M r c) = 0"
  proof (intro allI impI)
    fix r assume r: "r < ?n"
    have "(\<Sum>c<?n. coeff M r c) =
          (\<Sum>c<?n. ?K r c + (\<Sum>c<?n. \<Sum>r<?n. ?K r c) / real (?n * ?n)
                    - (\<Sum>r'<?n. ?K r' r) / real ?n - (\<Sum>r'<?n. ?K r' c) / real ?n)"
      using M(4) r by (intro sum.cong) simp_all
    also have "\<dots> = 0"
      by (rule double_centering_row_sum [OF n symK r])
    finally show "(\<Sum>c<?n. coeff M r c) = 0" .
  qed
  show ?thesis using M(1,2,3) symM rowsum by blast
qed

subsection \<open>Rounding to double\<close>

text \<open>Evaluating the arithmetic of \<open>double\<close> on given numbers.\<close>

lemmas double_eval = plus_double_def minus_double_def times_double_def divide_double_def
  uminus_double_def zero_double_def one_double_def
  dadd_def dneg_def dmul_def ddiv_def is_inf_def is_zero_def value_of_def sign_bit_def
  signed_zero_def signed_inf_def round_double_def rne_def double_of_nat_def double_eq_def
  expo.simps Let_def

lemma rne_ge_floor: "\<lfloor>x\<rfloor> \<le> rne x"
  by (simp add: rne_def Let_def)

lemma rne_upper: "real_of_int (rne x) \<le> x + 1 / 2"
proof -
  have "real_of_int \<lfloor>x\<rfloor> \<le> x" by simp
  then show ?thesis
    by (simp add: rne_def Let_def) linarith
qed

lemma rne_lower: "x - 1 / 2 \<le> real_of_int (rne x)"
proof -
  have "x < real_of_int \<lfloor>x\<rfloor> + 1" by linarith
  then show ?thesis
    by (simp add: rne_def Let_def) linarith
qed

lemma expo_spec:
  assumes "lo < hi" and "a < 2 powi hi"
  shows "lo \<le> expo a lo hi \<and> expo a lo hi < hi \<and> a < 2 powi (expo a lo hi + 1)
         \<and> (expo a lo hi = lo \<or> 2 powi (expo a lo hi) \<le> a)"
  using assms
proof (induction a lo hi rule: expo.induct)
  case (1 a lo hi)
  show ?case
  proof (cases "hi \<le> lo + 1")
    case True
    then have h: "hi = lo + 1" using "1.prems"(1) by simp
    have e: "expo a lo hi = lo" using True by (subst expo.simps) simp
    show ?thesis using "1.prems"(2) e h by simp
  next
    case False
    let ?mid = "(lo + hi) div 2"
    have mid: "lo < ?mid" "?mid < hi" using False by simp_all
    show ?thesis
    proof (cases "2 powi ?mid \<le> a")
      case True
      have e: "expo a lo hi = expo a ?mid hi"
        using False True by (subst expo.simps) simp
      from "1.IH"(1) [OF False True mid(2) "1.prems"(2)] mid True show ?thesis
        unfolding e by auto
    next
      case F2: False
      have e: "expo a lo hi = expo a lo ?mid"
        using False F2 by (subst expo.simps) simp
      have "a < 2 powi ?mid" using F2 by simp
      from "1.IH"(2) [OF False F2 mid(1) this] mid show ?thesis
        unfolding e by auto
    qed
  qed
qed

lemma round_double_ge_one:
  assumes q: "1 \<le> q"
  shows "round_double q = PInf \<or> (\<exists>r. round_double q = Finite r \<and> 1 \<le> r)"
proof (cases "2 ^ 1024 \<le> \<bar>q\<bar>")
  case True
  then show ?thesis using q by (simp add: round_double_def signed_inf_def)
next
  case False
  let ?e = "expo \<bar>q\<bar> (- 1022) 1024"
  let ?u = "2 powi (?e - 52) :: real"
  let ?r = "of_int (rne (q / ?u)) * ?u"
  have aq: "\<bar>q\<bar> = q" using q by simp
  have lt: "q < 2 powi 1024" using False aq by simp
  from expo_spec [of "- 1022" 1024 q, OF _ lt]
  have e: "q < 2 powi (?e + 1)" "?e = - 1022 \<or> 2 powi ?e \<le> q"
    unfolding aq by simp_all
  have "(1 :: real) < 2 powi (?e + 1)" using q e(1) by linarith
  then have "2 powi 0 < (2 :: real) powi (?e + 1)" by simp
  then have "0 < ?e + 1"
    by (metis not_less one_less_numeral_iff power_int_increasing semiring_norm(76) linorder_not_le less_eq_real_def)
  then have e0: "0 \<le> ?e" by simp
  have le: "2 powi ?e \<le> q" using e(2) e0 by auto
  have u0: "0 < ?u" by simp
  have "2 powi 52 * ?u = (2 :: real) powi ?e"
    by (simp add: power_int_diff)
  then have "2 powi 52 \<le> q / ?u"
    using le u0 by (simp add: pos_le_divide_eq)
  then have "(2 :: real) ^ 52 \<le> q / ?u" by simp
  then have "(2 :: int) ^ 52 \<le> \<lfloor>q / ?u\<rfloor>"
    by (metis of_int_numeral of_int_power le_floor_iff)
  then have "(2 :: int) ^ 52 \<le> rne (q / ?u)"
    using rne_ge_floor [of "q / ?u"] by linarith
  then have "(2 :: real) ^ 52 \<le> of_int (rne (q / ?u))"
    by (metis of_int_le_iff of_int_numeral of_int_power)
  then have "2 ^ 52 * ?u \<le> ?r"
    using u0 by (simp add: mult_right_mono)
  moreover have "2 ^ 52 * ?u = (2 :: real) powi ?e"
    by (simp add: power_int_diff)
  moreover have "(1 :: real) \<le> 2 powi ?e" using e0 by simp
  ultimately have r1: "1 \<le> ?r" by linarith
  have "round_double q = (if 2 ^ 1024 \<le> \<bar>?r\<bar> then PInf else Finite ?r)"
    using q False r1 unfolding round_double_def Let_def aq
    by (auto simp: signed_inf_def)
  then show ?thesis using r1 by auto
qed

lemma round_double_small_finite:
  assumes q: "\<bar>q\<bar> \<le> 1"
  shows "is_finite (round_double q)"
proof (cases "q = 0")
  case True
  then show ?thesis by (simp add: round_double_def is_finite_def)
next
  case False
  let ?e = "expo \<bar>q\<bar> (- 1022) 1024"
  let ?u = "2 powi (?e - 52) :: real"
  let ?r = "of_int (rne (q / ?u)) * ?u"
  have big: "(2 :: real) < 2 ^ 1024" by simp
  have nb: "\<not> 2 ^ 1024 \<le> \<bar>q\<bar>" using q big by linarith
  have lt: "\<bar>q\<bar> < 2 powi 1024" using nb by simp
  from expo_spec [of "- 1022" 1024 "\<bar>q\<bar>", OF _ lt]
  have e: "?e = - 1022 \<or> 2 powi ?e \<le> \<bar>q\<bar>" by simp
  have e0: "?e \<le> 0"
  proof (rule ccontr)
    assume "\<not> ?e \<le> 0"
    then have p: "0 < ?e" by simp
    then have "(1 :: real) < 2 powi ?e" by (simp add: one_less_power_int)
    moreover have "2 powi ?e \<le> \<bar>q\<bar>" using e p by auto
    ultimately show False using q by linarith
  qed
  have u0: "0 < ?u" by simp
  have "?u \<le> 2 powi 0"
    by (rule power_int_increasing) (use e0 in simp_all)
  then have u1: "?u \<le> 1" by simp
  have "\<bar>real_of_int (rne (q / ?u))\<bar> \<le> \<bar>q / ?u\<bar> + 1 / 2"
    using rne_upper [of "q / ?u"] rne_lower [of "q / ?u"] by linarith
  then have "\<bar>?r\<bar> \<le> (\<bar>q / ?u\<bar> + 1 / 2) * ?u"
    using u0 by (simp add: abs_mult mult_right_mono)
  also have "\<dots> = \<bar>q\<bar> + ?u / 2"
    using u0 by (simp add: algebra_simps abs_mult)
  also have "\<dots> \<le> 2" using q u1 by linarith
  finally have "\<bar>?r\<bar> \<le> 2" .
  then have nr: "\<not> 2 ^ 1024 \<le> \<bar>?r\<bar>" using big by linarith
  have "round_double q = (if ?r = 0 then signed_zero (q < 0) else Finite ?r)"
    using False nb nr unfolding round_double_def Let_def by simp
  then show ?thesis by (simp add: is_finite_def signed_zero_def)
qed

lemma double_of_nat_nonzero:
  assumes "n \<noteq> 0"
  shows "double_of_nat n = PInf \<or> (\<exists>r. double_of_nat n = Finite r \<and> 1 \<le> r)"
  unfolding double_of_nat_def using assms by (intro round_double_ge_one) simp

lemma covariance_scale_finite:
  assumes "n \<noteq> 0"
  shows "is_finite (covariance_scale double_of_nat n)"
proof -
  have m1: "- (1 :: double) = Finite (- 1)"
    by (simp add: uminus_double_def one_double_def dneg_def)
  from double_of_nat_nonzero [OF assms] show ?thesis
  proof
    assume "double_of_nat n = PInf"
    then show ?thesis
      by (simp add: covariance_scale_def m1 divide_double_def ddiv_def is_inf_def is_zero_def
          sign_bit_def signed_zero_def is_finite_def)
  next
    assume "\<exists>r. double_of_nat n = Finite r \<and> 1 \<le> r"
    then obtain r where r: "double_of_nat n = Finite r" "1 \<le> r" by blast
    have "\<bar>- 1 / r\<bar> \<le> 1" using r(2) by simp
    then have "is_finite (round_double (- 1 / r))" by (rule round_double_small_finite)
    moreover have "covariance_scale double_of_nat n = round_double (- 1 / r)"
      using r by (simp add: covariance_scale_def m1 divide_double_def ddiv_def is_inf_def
          is_zero_def value_of_def)
    ultimately show ?thesis by simp
  qed
qed

lemma upt_2: "[0..<2] = [0, Suc 0]"
  by (simp add: numeral_2_eq_2)

lemma upt_3: "[0..<3] = [0, Suc 0, Suc (Suc 0)]"
  by (simp add: numeral_3_eq_3)

subsection \<open>Defaults and casts\<close>

lemma PUT_DEFAULT_apply:
  "PUT_DEFAULT K V p k = (if k = K \<and> p K = None then Some V else p k)"
  by (simp add: PUT_DEFAULT_def)

lemma put_defaults_apply:
  "put_defaults a c p k =
     (if p k \<noteq> None then p k
      else if k = OUTPUT_FEATURE_VECTORS_ARE_COLUMNS then Some (any_bool False)
      else if k = EIGENSHIFT then Some (any_ScalarType (round_double (1 / 10 ^ 9)))
      else if k = KLLE_TRACE_SHIFT then Some (any_ScalarType (round_double (1 / 10 ^ 3)))
      else if k = CHECK_CONNECTIVITY then Some (any_bool True)
      else if k = EIGEN_EMBEDDING_METHOD
        then Some (any_TAPKEE_EIGEN_EMBEDDING_METHOD (if a then ARPACK else EIGEN_DENSE_SELFADJOINT_SOLVER))
      else if k = TARGET_DIMENSION then Some (any_IndexType 2)
      else if k = NEIGHBORS_METHOD \<and> c then Some (any_TAPKEE_NEIGHBORS_METHOD COVER_TREE)
      else None)"
  unfolding put_defaults_def Let_def
  by (cases a; cases c; cases k) (simp_all add: PUT_DEFAULT_apply)

lemma put_defaults_untouched:
  assumes "k = REDUCTION_METHOD \<or> k = PROGRESS_FUNCTION \<or> k = CANCEL_FUNCTION"
  shows "put_defaults a c p k = p k"
  using assms by (auto simp: put_defaults_apply)

lemma cast_progress_function_error:
  "cast_progress_function v = Inl e \<Longrightarrow> e = bad_any_cast"
  by (cases v) simp_all

section \<open>The claims\<close>

subsection \<open>compute_covariance_matrix\<close>




text \<open>
  C9. The scaling factor \<open>-1.0/(end-begin)\<close> of compute_covariance_matrix is computed with no
  guard. On a non-empty data sequence the divisor is not zero and the factor is a finite
  number. Whenever the feature vectors have the given dimension, the function returns what
  the loop has accumulated, updated once more with the sum vector and that factor. On the
  empty sequence the divisor is zero and the factor is the negative infinity; the function
  still returns, and every coefficient of the upper triangle of the matrix it returns is
  not a number.
\<close>

theorem covariance_scale_nonempty:
  fixes data :: "'item list" and callback :: "'item \<Rightarrow> double list \<Rightarrow> double list"
  shows "(data \<noteq> [] \<longrightarrow>
            \<not> is_zero (double_of_nat (length data))
            \<and> is_finite (covariance_scale double_of_nat (length data)))
         \<and> ((\<forall>v \<in> set (feature_vectors callback data (DenseVector_uninit mem dimension)).
                length v = dimension) \<longrightarrow>
              (\<exists>s M. covariance_loop callback data (DenseVector_uninit mem dimension)
                        (DenseVector_Zero dimension) (DenseMatrix_Zero dimension dimension) = Inr (s, M)
                 \<and> compute_covariance_matrix double_of_nat mem data callback dimension
                     = Inr (rankUpdate_Upper M s (covariance_scale double_of_nat (length data)))))
         \<and> is_zero (double_of_nat (length ([] :: 'item list)))
         \<and> covariance_scale double_of_nat (length ([] :: 'item list)) = MInf
         \<and> (\<exists>C. compute_covariance_matrix double_of_nat mem ([] :: 'item list) callback dimension = Inr C
                \<and> rows C = dimension \<and> cols C = dimension
                \<and> (\<forall>i j. i \<le> j \<and> j < dimension \<longrightarrow> coeff C i j = NaN))"
proof (intro conjI impI)
  assume ne: "data \<noteq> []"
  then have n: "length data \<noteq> 0" by simp
  from double_of_nat_nonzero [OF n] show "\<not> is_zero (double_of_nat (length data))"
    by (auto simp: is_zero_def)
  from covariance_scale_finite [OF n]
  show "is_finite (covariance_scale double_of_nat (length data))" .
next
  assume conf: "\<forall>v \<in> set (feature_vectors callback data (DenseVector_uninit mem dimension)).
                  length v = dimension"
  have lz: "length (DenseVector_Zero dimension :: double list) = dimension"
    by (simp add: DenseVector_Zero_def)
  from covariance_loop_returns [OF conf lz, of "DenseMatrix_Zero dimension dimension"]
  obtain s M where
    L: "covariance_loop callback data (DenseVector_uninit mem dimension)
          (DenseVector_Zero dimension) (DenseMatrix_Zero dimension dimension) = Inr (s, M)"
    by blast
  then have "compute_covariance_matrix double_of_nat mem data callback dimension
               = Inr (rankUpdate_Upper M s (covariance_scale double_of_nat (length data)))"
    by (simp add: compute_covariance_matrix_def)
  with L show "\<exists>s M. covariance_loop callback data (DenseVector_uninit mem dimension)
                   (DenseVector_Zero dimension) (DenseMatrix_Zero dimension dimension) = Inr (s, M)
                 \<and> compute_covariance_matrix double_of_nat mem data callback dimension
                     = Inr (rankUpdate_Upper M s (covariance_scale double_of_nat (length data)))"
    by blast
next
  show "is_zero (double_of_nat (length ([] :: 'item list)))"
    by (simp add: double_of_nat_def round_double_def is_zero_def)
next
  show "covariance_scale double_of_nat (length ([] :: 'item list)) = MInf"
    by (simp add: covariance_scale_def double_eval)
next
  let ?C = "rankUpdate_Upper (DenseMatrix_Zero dimension dimension) (DenseVector_Zero dimension)
              (covariance_scale double_of_nat (length ([] :: 'item list)))"
  have s: "covariance_scale double_of_nat (length ([] :: 'item list)) = MInf"
    by (simp add: covariance_scale_def double_eval)
  have nan: "(0 :: double) + MInf * 0 * 0 = NaN"
    by (simp add: double_eval)
  have 1: "compute_covariance_matrix double_of_nat mem ([] :: 'item list) callback dimension = Inr ?C"
    by (simp add: compute_covariance_matrix_def)
  have 2: "rows ?C = dimension" "cols ?C = dimension"
    by (simp_all add: DenseMatrix_Zero_def)
  have 3: "\<forall>i j. i \<le> j \<and> j < dimension \<longrightarrow> coeff ?C i j = NaN"
    unfolding s by (simp add: DenseMatrix_Zero_def DenseVector_Zero_def nan)
  show "\<exists>C. compute_covariance_matrix double_of_nat mem ([] :: 'item list) callback dimension = Inr C
          \<and> rows C = dimension \<and> cols C = dimension
          \<and> (\<forall>i j. i \<le> j \<and> j < dimension \<longrightarrow> coeff C i j = NaN)"
    using 1 2 3 by blast
qed

theorem covariance_scale_nonempty_witness:
  "[7, 8, 9 :: nat] \<noteq> []
   \<and> \<not> is_zero (double_of_nat (length [7, 8, 9 :: nat]))
   \<and> is_finite (covariance_scale double_of_nat (length [7, 8, 9 :: nat]))
   \<and> covariance_scale double_of_nat (length [7, 8, 9 :: nat]) = Finite (- 6004799503160661 / 2 ^ 54)
   \<and> map length (feature_vectors (\<lambda>x _. [Finite 1]) [7, 8, 9 :: nat] (DenseVector_uninit (\<lambda>_. NaN) 1))
       = [1, 1, 1]
   \<and> (\<exists>s M. covariance_loop (\<lambda>x _. [Finite 1]) [7, 8, 9 :: nat] (DenseVector_uninit (\<lambda>_. NaN) 1)
                (DenseVector_Zero 1) (DenseMatrix_Zero 1 1) = Inr (s, M)
          \<and> compute_covariance_matrix double_of_nat (\<lambda>_. NaN) [7, 8, 9 :: nat] (\<lambda>x _. [Finite 1]) 1
              = Inr (rankUpdate_Upper M s (Finite (- 6004799503160661 / 2 ^ 54))))
   \<and> covariance_scale double_of_nat (length ([] :: nat list)) = MInf
   \<and> (\<exists>C. compute_covariance_matrix double_of_nat (\<lambda>_. NaN) ([] :: nat list) (\<lambda>x _. [Finite 1]) 1 = Inr C
          \<and> coeff C 0 0 = NaN)"
proof -
  note T = covariance_scale_nonempty
             [where data = "[7, 8, 9 :: nat]" and mem = "\<lambda>_. NaN" and callback = "\<lambda>x _. [Finite 1]"
                and dimension = 1]
  have h: "[7, 8, 9 :: nat] \<noteq> []" by simp
  from T h have 1: "\<not> is_zero (double_of_nat (length [7, 8, 9 :: nat]))"
    and 2: "is_finite (covariance_scale double_of_nat (length [7, 8, 9 :: nat]))"
    by blast+
  from T have 3: "covariance_scale double_of_nat (length ([] :: nat list)) = MInf"
    by blast
  from T obtain C where
    C: "compute_covariance_matrix double_of_nat (\<lambda>_. NaN) ([] :: nat list) (\<lambda>x _. [Finite 1]) 1 = Inr C"
       "\<forall>i j. i \<le> j \<and> j < 1 \<longrightarrow> coeff C i j = NaN"
    by blast
  have 4: "coeff C 0 0 = NaN" using C(2) by simp
  have 5: "covariance_scale double_of_nat (length [7, 8, 9 :: nat]) = Finite (- 6004799503160661 / 2 ^ 54)"
    by (simp add: covariance_scale_def double_eval)
  have conf: "\<forall>v \<in> set (feature_vectors (\<lambda>x _. [Finite 1]) [7, 8, 9 :: nat]
                         (DenseVector_uninit (\<lambda>_. NaN) 1)).
                length v = 1"
    by simp
  have 6: "map length (feature_vectors (\<lambda>x _. [Finite 1]) [7, 8, 9 :: nat]
                         (DenseVector_uninit (\<lambda>_. NaN) 1)) = [1, 1, 1]"
    by simp
  from T conf obtain s M where
    L: "covariance_loop (\<lambda>x _. [Finite 1]) [7, 8, 9 :: nat] (DenseVector_uninit (\<lambda>_. NaN) 1)
          (DenseVector_Zero 1) (DenseMatrix_Zero 1 1) = Inr (s, M)"
       "compute_covariance_matrix double_of_nat (\<lambda>_. NaN) [7, 8, 9 :: nat] (\<lambda>x _. [Finite 1]) 1
          = Inr (rankUpdate_Upper M s (covariance_scale double_of_nat (length [7, 8, 9 :: nat])))"
    by blast
  have 7: "\<exists>s M. covariance_loop (\<lambda>x _. [Finite 1]) [7, 8, 9 :: nat] (DenseVector_uninit (\<lambda>_. NaN) 1)
                (DenseVector_Zero 1) (DenseMatrix_Zero 1 1) = Inr (s, M)
          \<and> compute_covariance_matrix double_of_nat (\<lambda>_. NaN) [7, 8, 9 :: nat] (\<lambda>x _. [Finite 1]) 1
              = Inr (rankUpdate_Upper M s (Finite (- 6004799503160661 / 2 ^ 54)))"
    using L unfolding 5 by blast
  show ?thesis using h 1 2 3 5 6 7 C(1) 4 by blast
qed

subsection \<open>compute_centered_kernel_matrix\<close>




text \<open>
  C7, amended to the arithmetic in which it holds. In exact arithmetic (the instance of
  the primitive at \<open>real\<close>): on a non-empty data sequence and for every kernel callback,
  symmetric or not, the matrix \<open>M\<close> compute_centered_kernel_matrix returns is symmetric,
  \<open>M(i,j) = M(j,i)\<close> for all indices \<open>i\<close>, \<open>j\<close>.
\<close>

theorem centered_kernel_symmetric:
  fixes callback :: "'item \<Rightarrow> 'item \<Rightarrow> real"
  assumes "data \<noteq> []"
  shows "\<exists>M. compute_centered_kernel_matrix real mem data callback = Inr M
           \<and> rows M = length data \<and> cols M = length data
           \<and> (\<forall>i<length data. \<forall>j<length data. coeff M i j = coeff M j i)"
  using compute_centered_kernel_matrix_sym [OF assms, of mem callback] by blast

theorem centered_kernel_symmetric_witness:
  "[1, 2 :: real] \<noteq> []
   \<and> (\<exists>M. compute_centered_kernel_matrix real (\<lambda>_ _. 9) [1, 2 :: real] (\<lambda>x y. x - 3 * y) = Inr M
          \<and> rows M = 2 \<and> cols M = 2
          \<and> (\<forall>i<2. \<forall>j<2. coeff M i j = coeff M j i))"
proof -
  have h: "[1, 2 :: real] \<noteq> []" by simp
  have l: "length [1, 2 :: real] = 2" by simp
  note T = centered_kernel_symmetric [OF h, of "\<lambda>_ _. 9" "\<lambda>x y. x - 3 * y", unfolded l]
  show ?thesis using h T by blast
qed

text \<open>
  C7, as the specification has it, fails in the arithmetic of the program: on the items
  \<open>1\<close>, \<open>2\<close>, \<open>4\<close> with the kernel \<open>x + 2y\<close> the coefficients \<open>M(0,2)\<close> and \<open>M(2,0)\<close> of the
  matrix returned differ, the two subtractions of the centering being rounded in opposite
  orders.
\<close>

theorem centered_kernel_symmetric_counterexample:
  "\<exists>M. compute_centered_kernel_matrix double_of_nat (\<lambda>_ _. NaN)
          [Finite 1, Finite 2, Finite 4] (\<lambda>x y. x + Finite 2 * y) = Inr M
       \<and> coeff M 0 2 = Finite (375299968947541 / 2 ^ 49)
       \<and> coeff M 2 0 = Finite (750599937895083 / 2 ^ 50)
       \<and> \<not> double_eq (coeff M 0 2) (coeff M 2 0)"
proof -
  let ?data = "[Finite 1, Finite 2, Finite 4]"
  let ?cb = "\<lambda>x y :: double. x + Finite 2 * y"
  define K where "K = kernel_outer_loop ?cb ?data 0 (DenseMatrix_uninit (\<lambda>_ _. NaN) 3 3)"
  have ne: "?data \<noteq> []" by simp
  have len: "length ?data = 3" by simp
  note R = compute_centered_kernel_matrix_result
             [OF ne, of double_of_nat "\<lambda>_ _. NaN" ?cb, unfolded len, folded K_def]
  from R obtain M where
    M: "compute_centered_kernel_matrix double_of_nat (\<lambda>_ _. NaN) ?data ?cb = Inr M"
    and co: "\<forall>r<3. \<forall>c<3. coeff M r c =
               coeff K r c
               + sum_coeffs (concat (map (\<lambda>c. map (\<lambda>r. coeff K r c) [0..<3]) [0..<3]))
                 / double_of_nat (3 * 3)
               - sum_coeffs (map (\<lambda>r'. coeff K r' r) [0..<3]) / double_of_nat 3
               - sum_coeffs (map (\<lambda>r'. coeff K r' c) [0..<3]) / double_of_nat 3"
    by blast
  have ev:
    "Finite 1 + Finite 2 * Finite 1 = Finite 3"
    "Finite 1 + Finite 2 * Finite 2 = Finite 5"
    "Finite 1 + Finite 2 * Finite 4 = Finite 9"
    "Finite 2 + Finite 2 * Finite 2 = Finite 6"
    "Finite 2 + Finite 2 * Finite 4 = Finite 10"
    "Finite 4 + Finite 2 * Finite 4 = Finite 12"
    by (simp_all add: double_eval)
  have K:
    "coeff K 0 0 = Finite 3" "coeff K (Suc 0) 0 = Finite 5" "coeff K (Suc (Suc 0)) 0 = Finite 9"
    "coeff K 0 (Suc 0) = Finite 5" "coeff K (Suc 0) (Suc 0) = Finite 6"
    "coeff K (Suc (Suc 0)) (Suc 0) = Finite 10"
    "coeff K 0 (Suc (Suc 0)) = Finite 9" "coeff K (Suc 0) (Suc (Suc 0)) = Finite 10"
    "coeff K (Suc (Suc 0)) (Suc (Suc 0)) = Finite 12"
    unfolding K_def by (simp_all add: kernel_outer_loop_coeff ev)
  have g: "sum_coeffs (concat (map (\<lambda>c. map (\<lambda>r. coeff K r c) [0..<3]) [0..<3]))
             / double_of_nat (3 * 3) = Finite (8631899285793451 / 2 ^ 50)"
    unfolding upt_3 by (simp add: K sum_coeffs_def double_eval)
  have c0: "sum_coeffs (map (\<lambda>r'. coeff K r' 0) [0..<3]) / double_of_nat 3
             = Finite (6380099472108203 / 2 ^ 50)"
    unfolding upt_3 by (simp add: K sum_coeffs_def double_eval)
  have c2: "sum_coeffs (map (\<lambda>r'. coeff K r' (Suc (Suc 0))) [0..<3]) / double_of_nat 3
             = Finite (5817149518686891 / 2 ^ 49)"
    unfolding upt_3 by (simp add: K sum_coeffs_def double_eval)
  have "coeff M 0 (Suc (Suc 0)) = Finite (375299968947541 / 2 ^ 49)"
    using co [rule_format, of 0 "Suc (Suc 0)"] unfolding g c0 c2 K
    by (simp add: double_eval)
  then have m02: "coeff M 0 2 = Finite (375299968947541 / 2 ^ 49)"
    by (simp add: numeral_2_eq_2)
  have "coeff M (Suc (Suc 0)) 0 = Finite (750599937895083 / 2 ^ 50)"
    using co [rule_format, of "Suc (Suc 0)" 0] unfolding g c0 c2 K
    by (simp add: double_eval)
  then have m20: "coeff M 2 0 = Finite (750599937895083 / 2 ^ 50)"
    by (simp add: numeral_2_eq_2)
  have "\<not> double_eq (coeff M 0 2) (coeff M 2 0)"
    unfolding m02 m20 by (simp add: double_eq_def is_zero_def)
  with M m02 m20 show ?thesis by blast
qed

subsection \<open>project\<close>

text \<open>
  C6. When every feature vector has as many coefficients as the projection matrix \<open>B\<close> has
  rows, project returns an embedding with one row per item, in input order, row \<open>i\<close> being
  \<open>B\<^sup>T x\<^sub>i\<close>. The projection result is an argument that project only reads.
\<close>

theorem project_rows:
  fixes projection_result :: "('a :: {zero, plus, times}) ProjectionResult"
  assumes "\<forall>v \<in> set (feature_vectors callback data (DenseVector_uninit mem dimension)).
             length v = rows (fst projection_result)"
  shows "\<exists>E. project mem projection_result data callback dimension = Inr (E, [])
           \<and> rows E = length data \<and> cols E = cols (fst projection_result)
           \<and> (\<forall>i<length data.
                 transpose_times (fst projection_result)
                   (feature_vectors callback data (DenseVector_uninit mem dimension) ! i)
                 = Inr (row E i))"
proof -
  let ?P = "fst projection_result"
  let ?cur = "DenseVector_uninit mem dimension"
  let ?xs = "feature_vectors callback data ?cur"
  let ?emb = "DenseMatrix_Zero (length data) (cols ?P) :: 'a DenseMatrix"
  have c: "cols ?emb = cols ?P" by (simp add: DenseMatrix_Zero_def)
  from project_loop_ok [OF assms c, of 0] obtain E where
    E: "project_loop ?P callback data 0 ?cur ?emb = Inr E"
       "rows E = rows ?emb" "cols E = cols ?emb"
       "\<forall>r c. coeff E r c =
          (if 0 \<le> r \<and> r < 0 + length data \<and> c < cols ?P
           then sum_coeffs (map (\<lambda>k. coeff ?P k c * (?xs ! (r - 0)) ! k) [0..<rows ?P])
           else coeff ?emb r c)"
    by blast
  have res: "project mem projection_result data callback dimension = Inr (E, [])"
    using E(1) by (simp add: project_def)
  have dims: "rows E = length data" "cols E = cols ?P"
    using E(2,3) by (simp_all add: DenseMatrix_Zero_def)
  have rws: "\<forall>i<length data. transpose_times ?P (?xs ! i) = Inr (row E i)"
  proof (intro allI impI)
    fix i assume i: "i < length data"
    then have "?xs ! i \<in> set ?xs" by simp
    then have len: "length (?xs ! i) = rows ?P" using assms by blast
    have "row E i = map (\<lambda>c. sum_coeffs (map (\<lambda>k. coeff ?P k c * (?xs ! i) ! k) [0..<rows ?P]))
                      [0..<cols ?P]"
      using E(4) i dims by (simp add: row_def)
    then show "transpose_times ?P (?xs ! i) = Inr (row E i)"
      by (simp add: transpose_times_def len)
  qed
  show ?thesis using res dims rws by blast
qed

theorem project_rows_witness:
  "map length (feature_vectors (\<lambda>x _. x) [[Finite 1, Finite 2], [Finite 3, Finite 4]]
                 (DenseVector_uninit (\<lambda>_. NaN) 2))
     = [2, 2]
   \<and> rows (fst (\<lparr>rows = 2, cols = 1, coeff = (\<lambda>r c. Finite 1)\<rparr>, [] :: double list)) = 2
   \<and> (\<exists>E. project (\<lambda>_. NaN) (\<lparr>rows = 2, cols = 1, coeff = (\<lambda>r c. Finite 1)\<rparr>, [])
              [[Finite 1, Finite 2], [Finite 3, Finite 4]] (\<lambda>x _. x) 2
            = Inr (E, [])
          \<and> rows E = 2 \<and> cols E = 1 \<and> row E 0 = [Finite 3] \<and> row E 1 = [Finite 7])"
proof -
  let ?pr = "(\<lparr>rows = 2, cols = 1, coeff = (\<lambda>r c. Finite 1)\<rparr>, [] :: double list)"
  let ?data = "[[Finite 1, Finite 2], [Finite 3, Finite 4]]"
  have h: "\<forall>v \<in> set (feature_vectors (\<lambda>x _. x) ?data (DenseVector_uninit (\<lambda>_. NaN) 2)).
             length v = rows (fst ?pr)"
    by simp
  from project_rows [OF h] obtain E where
    E: "project (\<lambda>_. NaN) ?pr ?data (\<lambda>x _. x) 2 = Inr (E, [])"
       "rows E = length ?data" "cols E = cols (fst ?pr)"
       "\<forall>i<length ?data.
          transpose_times (fst ?pr)
            (feature_vectors (\<lambda>x _. x) ?data (DenseVector_uninit (\<lambda>_. NaN) 2) ! i)
          = Inr (row E i)"
    by blast
  have "transpose_times (fst ?pr) [Finite 1, Finite 2] = Inr (row E 0)"
    using E(4) [rule_format, of 0] by simp
  then have r0: "row E 0 = [Finite 3]"
    by (simp add: transpose_times_def upt_2 sum_coeffs_def double_eval)
  have "transpose_times (fst ?pr) [Finite 3, Finite 4] = Inr (row E 1)"
    using E(4) [rule_format, of 1] by simp
  then have r1: "row E 1 = [Finite 7]"
    by (simp add: transpose_times_def upt_2 sum_coeffs_def double_eval)
  have ls: "map length (feature_vectors (\<lambda>x _. x) ?data (DenseVector_uninit (\<lambda>_. NaN) 2)) = [2, 2]"
    by simp
  show ?thesis using ls E(1,2,3) r0 r1 by auto
qed

text \<open>
  C4, as the code has it. project checks no dimension and raises no dimension-mismatch
  error: when some item's feature vector has a length other than the number of rows of the
  projection matrix, the product \<open>projection_matrix.transpose() * current_vector\<close> fails the size
  assertion of the matrix library, and project returns no embedding.
\<close>

theorem project_mismatch:
  assumes "\<exists>v \<in> set (feature_vectors callback data (DenseVector_uninit mem dimension)).
             length v \<noteq> rows (fst projection_result)"
  shows "project mem projection_result data callback dimension = Inl eigen_assertion_failed"
  using project_loop_mismatch [OF assms] by (simp add: project_def)

theorem project_mismatch_witness:
  "(\<exists>v \<in> set (feature_vectors (\<lambda>x _. x) [[Finite 1, Finite 2], [Finite 3]]
                   (DenseVector_uninit (\<lambda>_. NaN) 2)).
       length v \<noteq> rows (fst (\<lparr>rows = 2, cols = 1, coeff = (\<lambda>r c. Finite 1)\<rparr>, [] :: double list)))
   \<and> project (\<lambda>_. NaN) (\<lparr>rows = 2, cols = 1, coeff = (\<lambda>r c. Finite 1)\<rparr>, [])
         [[Finite 1, Finite 2], [Finite 3]] (\<lambda>x _. x) 2
       = Inl eigen_assertion_failed"
proof -
  let ?pr = "(\<lparr>rows = 2, cols = 1, coeff = (\<lambda>r c. Finite 1)\<rparr>, [] :: double list)"
  have h: "\<exists>v \<in> set (feature_vectors (\<lambda>x _. x) [[Finite 1, Finite 2], [Finite 3]]
                      (DenseVector_uninit (\<lambda>_. NaN) 2)).
             length v \<noteq> rows (fst ?pr)"
    by simp
  show ?thesis using h project_mismatch [OF h] by simp
qed

text \<open>
  C4, as the specification has it, fails: a feature vector of three coefficients against a
  projection matrix of two rows does not end in the dimension-mismatch error.
\<close>

theorem project_mismatch_counterexample:
  "length [Finite 1, Finite 2, Finite 3]
     \<noteq> rows (fst (\<lparr>rows = 2, cols = 1, coeff = (\<lambda>r c. Finite 1)\<rparr>, [] :: double list))
   \<and> project (\<lambda>_. NaN) (\<lparr>rows = 2, cols = 1, coeff = (\<lambda>r c. Finite 1)\<rparr>, [])
         [[Finite 1, Finite 2, Finite 3]] (\<lambda>x _. x) 2
       \<noteq> Inl dimension_mismatch_error"
  by (simp add: project_def transpose_times_def DenseVector_uninit_def DenseMatrix_Zero_def)

subsection \<open>embed\<close>

text \<open>
  C5. When the parameters map has no method selector, embed fails with the
  missing-parameter error, whatever else the map holds and whatever the method
  implementations would do: no default is written and nothing is computed.
\<close>

theorem embed_missing_method:
  assumes "parameters REDUCTION_METHOD = None"
  shows "embed a c implementation data callbacks parameters = Inl missed_parameter_error"
  using assms by (simp add: embed_def)

theorem embed_missing_method_witness:
  "[EIGENSHIFT \<mapsto> any_bool True, PROGRESS_FUNCTION \<mapsto> any_other ''x''] REDUCTION_METHOD = None
   \<and> embed False True (\<lambda>m d cb p ctx. Inr (DenseMatrix_Zero 1 1, ())) [0 :: nat] ()
        [EIGENSHIFT \<mapsto> any_bool True, PROGRESS_FUNCTION \<mapsto> any_other ''x'']
      = Inl missed_parameter_error"
  using embed_missing_method [of "[EIGENSHIFT \<mapsto> any_bool True, PROGRESS_FUNCTION \<mapsto> any_other ''x'']"
      False True "\<lambda>m d cb p ctx. Inr (DenseMatrix_Zero 1 1, ())" "[0 :: nat]" "()"]
  by simp

text \<open>
  C8. The defaulting step of embed is idempotent: applied to a parameters map it has
  already filled, it leaves the map as it is.
\<close>

theorem put_defaults_idempotent:
  "put_defaults a c (put_defaults a c parameters) = put_defaults a c parameters"
proof (rule ext)
  fix k
  show "put_defaults a c (put_defaults a c parameters) k = put_defaults a c parameters k"
    by (simp add: put_defaults_apply)
qed

theorem put_defaults_idempotent_witness:
  "put_defaults False True
     (put_defaults False True [REDUCTION_METHOD \<mapsto> any_TAPKEE_METHOD PCA, TARGET_DIMENSION \<mapsto> any_IndexType 3])
   = put_defaults False True [REDUCTION_METHOD \<mapsto> any_TAPKEE_METHOD PCA, TARGET_DIMENSION \<mapsto> any_IndexType 3]
   \<and> put_defaults False True [REDUCTION_METHOD \<mapsto> any_TAPKEE_METHOD PCA, TARGET_DIMENSION \<mapsto> any_IndexType 3]
        TARGET_DIMENSION = Some (any_IndexType 3)
   \<and> put_defaults False True [REDUCTION_METHOD \<mapsto> any_TAPKEE_METHOD PCA, TARGET_DIMENSION \<mapsto> any_IndexType 3]
        CHECK_CONNECTIVITY = Some (any_bool True)"
  using put_defaults_idempotent [of False True
      "[REDUCTION_METHOD \<mapsto> any_TAPKEE_METHOD PCA, TARGET_DIMENSION \<mapsto> any_IndexType 3]"]
  by (simp add: put_defaults_apply)

text \<open>
  C3, as the code has it. When the method selector is \<open>UNKNOWN_METHOD\<close>, the one value of
  the enumeration that names no method, and the progress and cancel hooks are absent or are
  function pointers of their types, embed fails with the wrong-parameter-value error,
  whatever the method implementations would do, and returns no embedding.
\<close>

theorem embed_unknown_method:
  assumes sel: "parameters REDUCTION_METHOD = Some (any_TAPKEE_METHOD UNKNOWN_METHOD)"
    and pf: "parameters PROGRESS_FUNCTION = None
             \<or> (\<exists>f. parameters PROGRESS_FUNCTION = Some (any_progress_function f))"
    and cf: "parameters CANCEL_FUNCTION = None
             \<or> (\<exists>f. parameters CANCEL_FUNCTION = Some (any_cancel_function f))"
  shows "embed a c implementation data callbacks parameters = Inl wrong_parameter_error"
proof -
  let ?p = "put_defaults a c parameters"
  have p: "?p PROGRESS_FUNCTION = parameters PROGRESS_FUNCTION"
    and q: "?p CANCEL_FUNCTION = parameters CANCEL_FUNCTION"
    by (simp_all add: put_defaults_untouched)
  from pf obtain progress where
    1: "(if ?p PROGRESS_FUNCTION \<noteq> None
         then map_sum id Some (cast_progress_function (parameters_at ?p PROGRESS_FUNCTION))
         else Inr None) = Inr progress"
    unfolding p by (auto simp: parameters_at_def p)
  from cf obtain cancel where
    2: "(if ?p CANCEL_FUNCTION \<noteq> None
         then map_sum id Some (cast_cancel_function (parameters_at ?p CANCEL_FUNCTION))
         else Inr None) = Inr cancel"
    unfolding q by (auto simp: parameters_at_def q)
  show ?thesis
    unfolding embed_def Let_def 1 2
    by (simp add: sel parameters_at_def)
qed

theorem embed_unknown_method_witness:
  "[REDUCTION_METHOD \<mapsto> any_TAPKEE_METHOD UNKNOWN_METHOD, PROGRESS_FUNCTION \<mapsto> any_progress_function 1]
       REDUCTION_METHOD = Some (any_TAPKEE_METHOD UNKNOWN_METHOD)
   \<and> [REDUCTION_METHOD \<mapsto> any_TAPKEE_METHOD UNKNOWN_METHOD, PROGRESS_FUNCTION \<mapsto> any_progress_function 1]
       PROGRESS_FUNCTION = Some (any_progress_function 1)
   \<and> [REDUCTION_METHOD \<mapsto> any_TAPKEE_METHOD UNKNOWN_METHOD, PROGRESS_FUNCTION \<mapsto> any_progress_function 1]
       CANCEL_FUNCTION = None
   \<and> embed True False (\<lambda>m d cb p ctx. Inr (DenseMatrix_Zero 1 1, ())) [0 :: nat] ()
       [REDUCTION_METHOD \<mapsto> any_TAPKEE_METHOD UNKNOWN_METHOD, PROGRESS_FUNCTION \<mapsto> any_progress_function 1]
     = Inl wrong_parameter_error"
  using embed_unknown_method [of
      "[REDUCTION_METHOD \<mapsto> any_TAPKEE_METHOD UNKNOWN_METHOD, PROGRESS_FUNCTION \<mapsto> any_progress_function 1]"
      True False "\<lambda>m d cb p ctx. Inr (DenseMatrix_Zero 1 1, ())" "[0 :: nat]" "()"]
  by simp

text \<open>
  C3, as the specification has it, fails: with the selector \<open>UNKNOWN_METHOD\<close> embed does not
  end in the unsupported-method error.
\<close>

theorem embed_unknown_method_counterexample:
  "embed False False (\<lambda>m d cb p ctx. Inr (DenseMatrix_Zero 1 1, ())) [0 :: nat] ()
        [REDUCTION_METHOD \<mapsto> any_TAPKEE_METHOD UNKNOWN_METHOD]
     \<noteq> Inl unsupported_method_error"
  by (simp add: embed_def parameters_at_def put_defaults_apply)

text \<open>
  C10. Of the casts of embed only that of the method selector is translated: a selector
  of the wrong type gives the wrong-parameter-type error, while a progress or cancel hook
  that is present with a value of the wrong type lets the \<open>bad_any_cast\<close> of the cast out as
  it is.
\<close>

theorem embed_cast_failures:
  "(\<forall>parameters v.
      parameters REDUCTION_METHOD = Some v \<and> cast_TAPKEE_METHOD v = Inl bad_any_cast
      \<longrightarrow> embed a c implementation data callbacks parameters = Inl wrong_parameter_type_error)
   \<and> (\<forall>parameters method.
      parameters REDUCTION_METHOD = Some (any_TAPKEE_METHOD method)
      \<and> ((\<exists>w. parameters PROGRESS_FUNCTION = Some w \<and> cast_progress_function w = Inl bad_any_cast)
         \<or> (\<exists>w. parameters CANCEL_FUNCTION = Some w \<and> cast_cancel_function w = Inl bad_any_cast))
      \<longrightarrow> embed a c implementation data callbacks parameters = Inl bad_any_cast)"
proof (intro conjI impI allI)
  fix parameters v
  assume "parameters REDUCTION_METHOD = Some v \<and> cast_TAPKEE_METHOD v = Inl bad_any_cast"
  then show "embed a c implementation data callbacks parameters = Inl wrong_parameter_type_error"
    by (simp add: embed_def parameters_at_def)
next
  fix parameters m
  let ?p = "put_defaults a c parameters"
  assume A: "parameters REDUCTION_METHOD = Some (any_TAPKEE_METHOD m)
      \<and> ((\<exists>w. parameters PROGRESS_FUNCTION = Some w \<and> cast_progress_function w = Inl bad_any_cast)
         \<or> (\<exists>w. parameters CANCEL_FUNCTION = Some w \<and> cast_cancel_function w = Inl bad_any_cast))"
  have p: "?p PROGRESS_FUNCTION = parameters PROGRESS_FUNCTION"
    and q: "?p CANCEL_FUNCTION = parameters CANCEL_FUNCTION"
    by (simp_all add: put_defaults_untouched)
  let ?P = "if ?p PROGRESS_FUNCTION \<noteq> None
         then map_sum id Some (cast_progress_function (parameters_at ?p PROGRESS_FUNCTION))
         else Inr None"
  let ?C = "if ?p CANCEL_FUNCTION \<noteq> None
         then map_sum id Some (cast_cancel_function (parameters_at ?p CANCEL_FUNCTION))
         else Inr None"
  have sel: "cast_TAPKEE_METHOD (parameters_at parameters REDUCTION_METHOD) = Inr m"
    "parameters REDUCTION_METHOD \<noteq> None"
    using A by (simp_all add: parameters_at_def)
  have Perr: "?P = Inl e \<Longrightarrow> e = bad_any_cast" for e
    by (auto split: if_splits simp: map_sum_def split: sum.splits dest: cast_progress_function_error)
  consider (progress) "?P = Inl bad_any_cast" | (cancel) pr where "?P = Inr pr" "?C = Inl bad_any_cast"
  proof (cases ?P)
    case (Inl e)
    then show ?thesis using Perr that(1) by blast
  next
    case (Inr pr)
    have "\<not> (\<exists>w. parameters PROGRESS_FUNCTION = Some w \<and> cast_progress_function w = Inl bad_any_cast)"
      using Inr unfolding p by (auto simp: parameters_at_def p)
    then obtain w where "parameters CANCEL_FUNCTION = Some w" "cast_cancel_function w = Inl bad_any_cast"
      using A by blast
    then have "?C = Inl bad_any_cast"
      unfolding q by (simp add: parameters_at_def q)
    then show ?thesis using Inr that(2) by blast
  qed
  then show "embed a c implementation data callbacks parameters = Inl bad_any_cast"
  proof cases
    case progress
    show ?thesis
      unfolding embed_def Let_def progress using sel by simp
  next
    case cancel
    show ?thesis
      unfolding embed_def Let_def cancel using sel by simp
  qed
qed

theorem embed_cast_failures_witness:
  "embed False False (\<lambda>m d cb p ctx. Inr (DenseMatrix_Zero 1 1, ())) [0 :: nat] ()
       [REDUCTION_METHOD \<mapsto> any_IndexType 12] = Inl wrong_parameter_type_error
   \<and> embed False False (\<lambda>m d cb p ctx. Inr (DenseMatrix_Zero 1 1, ())) [0 :: nat] ()
       [REDUCTION_METHOD \<mapsto> any_TAPKEE_METHOD PCA, PROGRESS_FUNCTION \<mapsto> any_bool True] = Inl bad_any_cast
   \<and> embed False False (\<lambda>m d cb p ctx. Inr (DenseMatrix_Zero 1 1, ())) [0 :: nat] ()
       [REDUCTION_METHOD \<mapsto> any_TAPKEE_METHOD PCA, CANCEL_FUNCTION \<mapsto> any_progress_function 1] = Inl bad_any_cast"
proof -
  note T = embed_cast_failures [of False False "\<lambda>m d cb p ctx. Inr (DenseMatrix_Zero 1 1, ())" "[0 :: nat]" "()"]
  have 1: "embed False False (\<lambda>m d cb p ctx. Inr (DenseMatrix_Zero 1 1, ())) [0 :: nat] ()
       [REDUCTION_METHOD \<mapsto> any_IndexType 12] = Inl wrong_parameter_type_error"
    by (rule T [THEN conjunct1, rule_format, of _ "any_IndexType 12"]) simp
  have 2: "embed False False (\<lambda>m d cb p ctx. Inr (DenseMatrix_Zero 1 1, ())) [0 :: nat] ()
       [REDUCTION_METHOD \<mapsto> any_TAPKEE_METHOD PCA, PROGRESS_FUNCTION \<mapsto> any_bool True] = Inl bad_any_cast"
    by (rule T [THEN conjunct2, rule_format, of _ PCA]) simp
  have 3: "embed False False (\<lambda>m d cb p ctx. Inr (DenseMatrix_Zero 1 1, ())) [0 :: nat] ()
       [REDUCTION_METHOD \<mapsto> any_TAPKEE_METHOD PCA, CANCEL_FUNCTION \<mapsto> any_progress_function 1] = Inl bad_any_cast"
    by (rule T [THEN conjunct2, rule_format, of _ PCA]) simp
  show ?thesis using 1 2 3 by blast
qed

end
